theory Spec2Isabelle
  imports Complex_Main "HOL-Library.Log_Nat"
begin

section \<open>Disc golf simulator: the front end in \<open>disc_golf_simulator.py\<close>\<close>

text \<open>
  The module consists of six default constants and one function, \<open>main\<close>, which reads a
  disc selection and six sliders, builds a disc model, renders an orientation preview,
  shoots the disc, remaps the axes of the trajectory, shows a four-row table of extrema
  and finally renders auxiliary charts.

  Numbers: a Python float and an entry of a numpy \<open>float64\<close> array is a finite IEEE
  double, read as the real number it denotes (\<^typ>\<open>real\<close>, \<^typ>\<open>real list\<close>); NaN and
  the infinities are not values of the model. Negation, comparison, \<open>min\<close> and \<open>max\<close>
  are exact on doubles. \<open>round\<close> computes in double precision and is modelled with
  the rounding of each of its steps to the nearest double.
\<close>

subsection \<open>Module constants (lines 12 to 17)\<close>

definition default_U :: real where "default_U = 24.2"
definition default_omega :: real where "default_omega = 116.8"
definition default_z0 :: real where "default_z0 = 1.3"
definition default_pitch :: real where "default_pitch = 15.5"
definition default_nose :: real where "default_nose = 0.0"
definition default_roll :: real where "default_roll = 14.7"

subsection \<open>Exceptions\<close>

text \<open>
  \<open>KeyError\<close> carries the missing key, \<open>ValueError\<close> is what the builtins \<open>min\<close> and
  \<open>max\<close> raise on an empty iterable, and \<open>Raised\<close> stands for any other exception a
  collaborator may raise. \<open>main\<close> contains no \<open>try\<close>, so every exception ends the run.
\<close>

datatype py_error = KeyError string | ValueError | Raised string

subsection \<open>Builtins: \<open>min\<close>, \<open>max\<close>, \<open>round\<close>, dictionary lookup\<close>

text \<open>
  The builtin \<open>min\<close> walks the iterable once and keeps the first smallest item
  (replacing the candidate only by a strictly smaller one); \<open>max\<close> likewise.
\<close>

fun py_min :: "real list \<Rightarrow> py_error + real" where
  "py_min [] = Inl ValueError"
| "py_min (v # vs) = Inr (fold (\<lambda>a m. if a < m then a else m) vs v)"

fun py_max :: "real list \<Rightarrow> py_error + real" where
  "py_max [] = Inl ValueError"
| "py_max (v # vs) = Inr (fold (\<lambda>a m. if m < a then a else m) vs v)"

definition rint :: "real \<Rightarrow> int" where
  "rint v =
     (let f = \<lfloor>v\<rfloor>; d = v - of_int f
      in if d < 1 / 2 then f
         else if 1 / 2 < d then f + 1
         else if even f then f else f + 1)"

text \<open>
  \<open>rint\<close> above is the nearest integer with ties to even. \<open>fl\<close> is the rounding of a
  real to the nearest double, ties to even: a double has 53 significant bits, so in
  the binade \<open>2 ^ e \<le> \<bar>x\<bar> < 2 ^ (e + 1)\<close> the doubles are the multiples of
  \<open>2 ^ (e - 52)\<close>; below \<open>2 ^ - 1022\<close> the spacing stays \<open>2 ^ - 1074\<close> (gradual underflow).
  \<open>expo x\<close> is that \<open>e\<close>, read off the bit length of \<open>\<lfloor>\<bar>x\<bar> * 2 ^ 1074\<rfloor>\<close>. A result of
  magnitude \<open>2 ^ 1024\<close> or more is an infinity in the code and is outside the model.

  \<open>round(v, ndigits)\<close> on a \<open>numpy.float64\<close> (the items of a numpy array) is numpy's:
  multiply by \<open>10 ** ndigits\<close>, \<open>rint\<close>, divide by \<open>10 ** ndigits\<close>, the product and the
  quotient each rounded to a double. So the double \<open>0.015\<close> is shown as \<open>0.02\<close>, because
  the product \<open>1.5\<close> is a tie, where exact decimal rounding of the double gives \<open>0.01\<close>.
\<close>

definition expo :: "real \<Rightarrow> int" where
  "expo x = max (bitlen \<lfloor>\<bar>x\<bar> * 2 ^ 1074\<rfloor> - 1075) (- 1022)"

definition fl :: "real \<Rightarrow> real" where
  "fl x = of_int (rint (x / 2 powi (expo x - 52))) * 2 powi (expo x - 52)"

definition py_round :: "real \<Rightarrow> nat \<Rightarrow> real" where
  "py_round v ndigits = fl (of_int (rint (fl (v * 10 ^ ndigits))) / 10 ^ ndigits)"

definition getitem :: "(string \<times> 'v) list \<Rightarrow> string \<Rightarrow> py_error + 'v" where
  "getitem d k = (case map_of d k of None \<Rightarrow> Inl (KeyError k) | Some v \<Rightarrow> Inr v)"

subsection \<open>The trajectory and its summary (lines 101, 102 and 117 to 120)\<close>

text \<open>
  \<open>shot.position\<close> is a numpy array of three rows, unpacked as \<open>x, y, z = shot.position\<close>;
  \<open>shot.velocity\<close> has the same shape. Rows of one array have one length.
\<close>

type_synonym series = "real list"
type_synonym rows3 = "series \<times> series \<times> series"

record shot =
  position :: rows3
  velocity :: rows3

definition rectangular :: "rows3 \<Rightarrow> bool" where
  "rectangular p = (case p of (x, y, z) \<Rightarrow> length x = length y \<and> length y = length z)"

text \<open>\<open>x_new, y_new = -1 * y, x\<close>; \<open>z\<close> is used as it is.\<close>

definition axis_remap :: "rows3 \<Rightarrow> rows3" where
  "axis_remap p = (case p of (x, y, z) \<Rightarrow> (map (\<lambda>v. - 1 * v) y, x, z))"

definition point :: "rows3 \<Rightarrow> nat \<Rightarrow> real \<times> real \<times> real" where
  "point p i = (case p of (x, y, z) \<Rightarrow> (x ! i, y ! i, z ! i))"

record flight_summary =
  drift_left :: real
  drift_right :: real
  max_height :: real
  distance :: real

text \<open>
  The four cells of the table, evaluated in the order of the f-string: the first
  \<open>min\<close> or \<open>max\<close> of an empty series raises, and no table is produced.
\<close>

definition summary_table :: "rows3 \<Rightarrow> py_error + flight_summary" where
  "summary_table p =
     (case axis_remap p of (x_new, y_new, z) \<Rightarrow>
        (case py_min x_new of Inl e \<Rightarrow> Inl e | Inr a \<Rightarrow>
        (case py_max x_new of Inl e \<Rightarrow> Inl e | Inr b \<Rightarrow>
        (case py_max z of Inl e \<Rightarrow> Inl e | Inr c \<Rightarrow>
        (case py_max y_new of Inl e \<Rightarrow> Inl e | Inr d \<Rightarrow>
           Inr \<lparr>drift_left = py_round a 2, drift_right = py_round b 2,
                max_height = py_round c 2, distance = py_round d 2\<rparr>)))))"

subsection \<open>Streamlit widgets (lines 45 to 79)\<close>

text \<open>
  A slider is declared by its label, bounds, initial value and step (the help texts
  are presentation only and are left out). What a widget returns is the session's
  current setting: an input of \<open>main\<close>, given as a function of the declaration.
\<close>

record slider_cfg =
  label :: string
  min_value :: real
  max_value :: real
  init_value :: real
  step :: real

definition nose_slider :: slider_cfg where
  "nose_slider = \<lparr>label = ''Nose Angle (deg) | Up/Down'', min_value = - 45.0,
     max_value = 90.0, init_value = default_nose, step = 0.1\<rparr>"

definition roll_slider :: slider_cfg where
  "roll_slider = \<lparr>label = ''Roll Angle (deg) | Anhyzer/Hyzer'', min_value = - 90.0,
     max_value = 90.0, init_value = default_roll, step = 0.1\<rparr>"

definition U_slider :: slider_cfg where
  "U_slider = \<lparr>label = ''Throwing Velocity (m/s)'', min_value = 0.0,
     max_value = 40.0, init_value = default_U, step = 0.1\<rparr>"

definition omega_slider :: slider_cfg where
  "omega_slider = \<lparr>label = ''Omega (revolutions/s)'', min_value = 0.0,
     max_value = 200.0, init_value = default_omega, step = 0.1\<rparr>"

definition z0_slider :: slider_cfg where
  "z0_slider = \<lparr>label = ''Release Height (m)'', min_value = 0.0,
     max_value = 2.0, init_value = default_z0, step = 0.1\<rparr>"

definition pitch_slider :: slider_cfg where
  "pitch_slider = \<lparr>label = ''Pitch Angle (deg) | Release angle'', min_value = 0.0,
     max_value = 90.0, init_value = default_pitch, step = 0.1\<rparr>"

definition sliders :: "slider_cfg list" where
  "sliders = [nose_slider, roll_slider, U_slider, omega_slider, z0_slider, pitch_slider]"

definition disc_names :: "(string \<times> string) list" where
  "disc_names =
     [(''Innova Wraith'', ''dd2''),
      (''Innova Firebird'', ''cd1''),
      (''Innova Roadrunner'', ''cd5''),
      (''Innova Fairway Driver'', ''fd2'')]"

record ui =
  selectbox :: "string \<Rightarrow> string list \<Rightarrow> string"
  slider :: "slider_cfg \<Rightarrow> real"

text \<open>The local variables of \<open>main\<close> that hold the collected inputs.\<close>

record throw_parameters =
  disc_name :: string
  nose :: real
  roll :: real
  U :: real
  omega :: real
  z0 :: real
  pitch :: real

subsection \<open>Collaborators, events and the run state\<close>

text \<open>
  \<open>shotshaper.projectile\<close> and \<open>utilities.visualize\<close> are not part of the module; their
  operations are parameters. Each may raise, and each may read and change state that
  is not among its arguments (the world \<open>'w\<close>), so a call maps a world to a result and
  a new world. The disc object is \<open>'d\<close>, a mesh \<open>'m\<close>, a figure \<open>'f\<close>.
  \<open>deepcopy\<close> of a mesh is the mesh.
\<close>

type_synonym post = "series \<times> series \<times> series \<times> series \<times> series \<times> series \<times> series"

record ('w, 'd, 'm, 'f) collab =
  DiscGolfDisc :: "string \<Rightarrow> 'w \<Rightarrow> (py_error + 'd) \<times> 'w"
  shoot :: "'d \<Rightarrow> real \<Rightarrow> real \<Rightarrow> real \<Rightarrow> real \<times> real \<times> real \<Rightarrow> real \<Rightarrow> real
              \<Rightarrow> 'w \<Rightarrow> (py_error + shot) \<times> 'w"
  post_process :: "'d \<Rightarrow> shot \<Rightarrow> real \<Rightarrow> 'w \<Rightarrow> (py_error + post) \<times> 'w"
  stl_meshes :: "string \<Rightarrow> 'm option"
  visualize_disc :: "'m \<Rightarrow> real \<Rightarrow> real \<Rightarrow> 'w \<Rightarrow> (py_error + 'f) \<times> 'w"
  get_plot :: "series \<Rightarrow> series \<Rightarrow> series \<Rightarrow> 'w \<Rightarrow> (py_error + 'f) \<times> 'w"
  get_subplots :: "series \<Rightarrow> series \<Rightarrow> series \<Rightarrow> series \<Rightarrow> series \<Rightarrow> series \<Rightarrow> rows3
                     \<Rightarrow> 'w \<Rightarrow> (py_error + 'f) \<times> 'w"

text \<open>
  What a run does to the outside: calls of collaborators, recorded on return with
  their arguments (\<open>shoot\<close>: speed, omega, pitch, position, nose angle, roll angle) and
  their outcome, and what the run puts on the page. Layout containers (tabs, spinners,
  the expander) are not events.
\<close>

datatype static_text =
  Visitor_badge | Heading_orientation | Heading_throwing | Text_orientation
  | Text_flight_path | Faq

datatype ('d, 'm, 'f) event =
    Call_DiscGolfDisc string "py_error + 'd"
  | Call_visualize_disc 'm real real "py_error + 'f"
  | Call_shoot 'd real real real "real \<times> real \<times> real" real real "py_error + shot"
  | Call_get_plot series series series "py_error + 'f"
  | Call_post_process 'd shot real "py_error + post"
  | Call_get_subplots series series series series series series rows3 "py_error + 'f"
  | Show_text static_text
  | Show_chart 'f
  | Show_table flight_summary

record ('w, 'd, 'm, 'f) run =
  world :: 'w
  trace :: "('d, 'm, 'f) event list"

type_synonym ('w, 'd, 'm, 'f, 'a) act =
  "('w, 'd, 'm, 'f) run \<Rightarrow> (py_error + 'a) \<times> ('w, 'd, 'm, 'f) run"

definition bnd :: "('w, 'd, 'm, 'f, 'a) act \<Rightarrow> ('a \<Rightarrow> ('w, 'd, 'm, 'f, 'b) act)
    \<Rightarrow> ('w, 'd, 'm, 'f, 'b) act" where
  "bnd m f s = (case m s of (Inl e, s') \<Rightarrow> (Inl e, s') | (Inr a, s') \<Rightarrow> f a s')"

definition ret :: "'a \<Rightarrow> ('w, 'd, 'm, 'f, 'a) act" where
  "ret a s = (Inr a, s)"

definition pure_result :: "py_error + 'a \<Rightarrow> ('w, 'd, 'm, 'f, 'a) act" where
  "pure_result r s = (r, s)"

definition emit :: "('d, 'm, 'f) event \<Rightarrow> ('w, 'd, 'm, 'f, unit) act" where
  "emit ev s = (Inr (), s\<lparr>trace := trace s @ [ev]\<rparr>)"

definition call :: "(py_error + 'a \<Rightarrow> ('d, 'm, 'f) event) \<Rightarrow> ('w \<Rightarrow> (py_error + 'a) \<times> 'w)
    \<Rightarrow> ('w, 'd, 'm, 'f, 'a) act" where
  "call ev op s =
     (case op (world s) of (r, w') \<Rightarrow> (r, s\<lparr>world := w', trace := trace s @ [ev r]\<rparr>))"

subsection \<open>\<open>main\<close> (lines 38 to 131)\<close>

text \<open>Lines 45 to 79: the disc selection and the six sliders.\<close>

definition collect :: "ui \<Rightarrow> ('w, 'd, 'm, 'f, throw_parameters) act" where
  "collect u =
     (let disc_selected = selectbox u ''Disc Selection'' (map fst disc_names) in
      bnd (pure_result (getitem disc_names disc_selected)) (\<lambda>disc_name.
      bnd (emit (Show_text Heading_orientation)) (\<lambda>_.
      let nose = slider u nose_slider;
          roll = slider u roll_slider in
      bnd (emit (Show_text Heading_throwing)) (\<lambda>_.
      let U = slider u U_slider;
          omega = slider u omega_slider;
          z0 = slider u z0_slider;
          pitch = slider u pitch_slider in
      ret \<lparr>disc_name = disc_name, nose = nose, roll = roll, U = U, omega = omega,
           z0 = z0, pitch = pitch\<rparr>))))"

text \<open>Lines 81 to 92: the release position, the disc model and the orientation preview.\<close>

definition orientation :: "('w, 'd, 'm, 'f) collab \<Rightarrow> throw_parameters
    \<Rightarrow> ('w, 'd, 'm, 'f, (real \<times> real \<times> real) \<times> 'd) act" where
  "orientation c p =
     (let pos = (0, 0, z0 p) in
      bnd (call (Call_DiscGolfDisc (disc_name p)) (DiscGolfDisc c (disc_name p))) (\<lambda>disc_dict.
      bnd (pure_result (case stl_meshes c (disc_name p) of
                          None \<Rightarrow> Inl (KeyError (disc_name p)) | Some m \<Rightarrow> Inr m)) (\<lambda>stl_mesh.
      bnd (call (Call_visualize_disc stl_mesh (nose p) (roll p))
                (visualize_disc c stl_mesh (nose p) (roll p))) (\<lambda>fig.
      bnd (emit (Show_text Text_orientation)) (\<lambda>_.
      bnd (emit (Show_chart fig)) (\<lambda>_.
      ret (pos, disc_dict)))))))"

text \<open>Lines 93 to 128: the shot, the remapped plot, the table and the auxiliary charts.\<close>

definition flight_path :: "('w, 'd, 'm, 'f) collab \<Rightarrow> throw_parameters
    \<Rightarrow> (real \<times> real \<times> real) \<times> 'd \<Rightarrow> ('w, 'd, 'm, 'f, unit) act" where
  "flight_path c p pd =
     (case pd of (pos, disc_dict) \<Rightarrow>
      bnd (emit (Show_text Text_flight_path)) (\<lambda>_.
      bnd (call (Call_shoot disc_dict (U p) (omega p) (pitch p) pos (nose p) (roll p))
                (shoot c disc_dict (U p) (omega p) (pitch p) pos (nose p) (roll p))) (\<lambda>shot.
      case axis_remap (position shot) of (x_new, y_new, z) \<Rightarrow>
      bnd (call (Call_get_plot x_new y_new z) (get_plot c x_new y_new z)) (\<lambda>fig.
      bnd (emit (Show_chart fig)) (\<lambda>_.
      bnd (pure_result (summary_table (position shot))) (\<lambda>tab.
      bnd (emit (Show_table tab)) (\<lambda>_.
      bnd (call (Call_post_process disc_dict shot (omega p))
                (post_process c disc_dict shot (omega p))) (\<lambda>pp.
      case pp of (arc, alphas, betas, lifts, drags, moms, rolls) \<Rightarrow>
      bnd (call (Call_get_subplots arc alphas lifts drags moms rolls (velocity shot))
                (get_subplots c arc alphas lifts drags moms rolls (velocity shot))) (\<lambda>fig.
      emit (Show_chart fig))))))))))"

definition main :: "ui \<Rightarrow> ('w, 'd, 'm, 'f) collab \<Rightarrow> ('w, 'd, 'm, 'f, unit) act" where
  "main u c =
     bnd (emit (Show_text Visitor_badge)) (\<lambda>_.
     bnd (collect u) (\<lambda>p.
     bnd (orientation c p) (\<lambda>pd.
     bnd (flight_path c p pd) (\<lambda>_.
     emit (Show_text Faq)))))"

text \<open>A run starts with an empty trace.\<close>

definition start :: "'w \<Rightarrow> ('w, 'd, 'm, 'f) run" where
  "start w = \<lparr>world = w, trace = []\<rparr>"

subsection \<open>Reading a trace\<close>

fun shoot_outcome :: "('d, 'm, 'f) event \<Rightarrow> (py_error + shot) option" where
  "shoot_outcome (Call_shoot d a b k pos n r res) = Some res"
| "shoot_outcome _ = None"

fun post_process_outcome :: "('d, 'm, 'f) event \<Rightarrow> (py_error + post) option" where
  "post_process_outcome (Call_post_process d sh om res) = Some res"
| "post_process_outcome _ = None"

fun shown_table :: "('d, 'm, 'f) event \<Rightarrow> flight_summary option" where
  "shown_table (Show_table t) = Some t"
| "shown_table _ = None"

definition shoot_outcomes :: "('d, 'm, 'f) event list \<Rightarrow> (py_error + shot) list" where
  "shoot_outcomes tr = List.map_filter shoot_outcome tr"

definition post_process_outcomes :: "('d, 'm, 'f) event list \<Rightarrow> (py_error + post) list" where
  "post_process_outcomes tr = List.map_filter post_process_outcome tr"

definition shown_tables :: "('d, 'm, 'f) event list \<Rightarrow> flight_summary list" where
  "shown_tables tr = List.map_filter shown_table tr"




definition sliders_in_bounds :: "ui \<Rightarrow> bool" where
  "sliders_in_bounds u =
     (\<forall>cfg \<in> set sliders. min_value cfg \<le> slider u cfg \<and> slider u cfg \<le> max_value cfg)"

definition in_declared_ranges :: "throw_parameters \<Rightarrow> bool" where
  "in_declared_ranges p =
     (0 \<le> U p \<and> U p \<le> 40 \<and> 0 \<le> omega p \<and> omega p \<le> 200 \<and>
      0 \<le> z0 p \<and> z0 p \<le> 2 \<and> 0 \<le> pitch p \<and> pitch p \<le> 90 \<and>
      - 45 \<le> nose p \<and> nose p \<le> 90 \<and> - 90 \<le> roll p \<and> roll p \<le> 90)"

subsection \<open>Sample inputs and collaborators\<close>

text \<open>
  The first run of a session: the select box is at its first option and every slider
  at its initial value. The sample collaborators stand in for the physics and the
  rendering: they count their calls in the world.
\<close>

definition first_run :: ui where
  "first_run = \<lparr>selectbox = (\<lambda>lbl options. hd options), slider = init_value\<rparr>"

definition demo_shot :: "real \<times> real \<times> real \<Rightarrow> shot" where
  "demo_shot pos =
     \<lparr>position = ([0, 1.234, 2.5], [0, 0.456, 0.2], [snd (snd pos), 0.789, 0]),
      velocity = ([1, 1, 1], [0, 0, 0], [0, 0, 0])\<rparr>"

definition demo_collab :: "(nat, string, string, string) collab" where
  "demo_collab =
     \<lparr>DiscGolfDisc = (\<lambda>n w. (Inr n, Suc w)),
      shoot = (\<lambda>d a b k pos n r w. (Inr (demo_shot pos), Suc w)),
      post_process = (\<lambda>d sh om w. (Inr ([], [], [], [], [], [], []), Suc w)),
      stl_meshes = (\<lambda>n. Some n),
      visualize_disc = (\<lambda>m n r w. (Inr ''orientation'', Suc w)),
      get_plot = (\<lambda>x y z w. (Inr ''trajectory'', Suc w)),
      get_subplots = (\<lambda>a b l d m r v w. (Inr ''science'', Suc w))\<rparr>"

definition failing_shoot :: "(nat, string, string, string) collab" where
  "failing_shoot =
     demo_collab\<lparr>shoot := (\<lambda>d a b k pos n r w. (Inl (Raised ''unstable''), Suc w))\<rparr>"

definition failing_post_process :: "(nat, string, string, string) collab" where
  "failing_post_process =
     demo_collab\<lparr>post_process := (\<lambda>d sh om w. (Inl (Raised ''no angles''), Suc w))\<rparr>"


definition first_run_parameters :: throw_parameters where
  "first_run_parameters =
     \<lparr>disc_name = ''dd2'', nose = 0.0, roll = 14.7, U = 24.2, omega = 116.8, z0 = 1.3,
      pitch = 15.5\<rparr>"

section \<open>Properties\<close>

subsection \<open>Builtins\<close>

lemma Min_insert_insert:
  fixes a v :: real
  assumes "finite S"
  shows "Min (insert (min a v) S) = Min (insert v (insert a S))"
proof (cases "S = {}")
  case True
  then show ?thesis by (simp add: min.commute)
next
  case False
  with assms show ?thesis by (simp add: min.assoc min.left_commute min.commute)
qed

lemma Max_insert_insert:
  fixes a v :: real
  assumes "finite S"
  shows "Max (insert (max a v) S) = Max (insert v (insert a S))"
proof (cases "S = {}")
  case True
  then show ?thesis by (simp add: max.commute)
next
  case False
  with assms show ?thesis by (simp add: max.assoc max.left_commute max.commute)
qed

lemma fold_min_eq:
  "fold (\<lambda>a m. if a < m then a else m) vs (v::real) = Min (insert v (set vs))"
proof (induction vs arbitrary: v)
  case Nil
  then show ?case by simp
next
  case (Cons a vs)
  have "(if a < v then a else v) = min a v" by (simp add: min_def)
  then show ?case using Cons.IH [of "min a v"] Min_insert_insert [of "set vs" a v]
    by simp
qed

lemma fold_max_eq:
  "fold (\<lambda>a m. if m < a then a else m) vs (v::real) = Max (insert v (set vs))"
proof (induction vs arbitrary: v)
  case Nil
  then show ?case by simp
next
  case (Cons a vs)
  have "(if v < a then a else v) = max a v" by (simp add: max_def)
  then show ?case using Cons.IH [of "max a v"] Max_insert_insert [of "set vs" a v]
    by simp
qed

lemma py_min_eq: "vs \<noteq> [] \<Longrightarrow> py_min vs = Inr (Min (set vs))"
  by (cases vs) (simp_all add: fold_min_eq)

lemma py_max_eq: "vs \<noteq> [] \<Longrightarrow> py_max vs = Inr (Max (set vs))"
  by (cases vs) (simp_all add: fold_max_eq)

lemma rint_bounds: "v - 1 / 2 \<le> of_int (rint v) \<and> of_int (rint v) \<le> v + 1 / 2"
  unfolding rint_def Let_def by (auto; linarith)

lemma rint_of_int [simp]: "rint (of_int n) = n"
  by (simp add: rint_def)

lemma rint_mono:
  assumes "a \<le> b"
  shows "rint a \<le> rint b"
proof (rule ccontr)
  assume "\<not> rint a \<le> rint b"
  then have lt: "rint b + 1 \<le> rint a" by simp
  then have "of_int (rint b) + 1 \<le> (of_int (rint a) :: real)" by linarith
  with rint_bounds [of a] rint_bounds [of b] assms have "a = b" by linarith
  with lt show False by simp
qed

lemma binade_of_floor:
  fixes x :: real
  assumes "0 < \<lfloor>\<bar>x\<bar> * 2 ^ n\<rfloor>"
  shows "2 powi (bitlen \<lfloor>\<bar>x\<bar> * 2 ^ n\<rfloor> - 1 - int n) \<le> \<bar>x\<bar>
       \<and> \<bar>x\<bar> < 2 powi (bitlen \<lfloor>\<bar>x\<bar> * 2 ^ n\<rfloor> - int n)"
proof -
  define y where "y = \<bar>x\<bar> * 2 ^ n"
  define m where "m = \<lfloor>y\<rfloor>"
  define b where "b = bitlen m"
  have m0: "0 < m" using assms by (simp add: m_def y_def)
  from bitlen_bounds [OF m0] have lo: "2 ^ nat (b - 1) \<le> m" and hi: "m < 2 ^ nat b"
    by (simp_all add: b_def)
  have b1: "1 \<le> b" using m0 by (auto simp: b_def bitlen_alt_def)
  have "(2::real) ^ nat (b - 1) = of_int (2 ^ nat (b - 1))" by simp
  also have "\<dots> \<le> of_int m" using lo by (simp only: of_int_le_iff)
  also have "\<dots> \<le> y" by (simp add: m_def)
  finally have l: "(2::real) powi (b - 1) \<le> y" using b1 by (simp add: power_int_def)
  have "m + 1 \<le> 2 ^ nat b" using hi by simp
  then have "of_int (m + 1) \<le> (of_int (2 ^ nat b) :: real)" by (simp only: of_int_le_iff)
  moreover have "y < of_int (m + 1)" unfolding m_def by linarith
  ultimately have h: "y < (2::real) powi b" using b1 by (simp add: power_int_def)
  have x: "\<bar>x\<bar> = y / 2 powi (int n)" by (simp add: y_def)
  have "2 powi (b - 1 - int n) = (2::real) powi (b - 1) / 2 powi (int n)"
    by (simp add: power_int_diff)
  also have "\<dots> \<le> y / 2 powi (int n)" using l by (simp add: divide_right_mono)
  finally have A: "2 powi (b - 1 - int n) \<le> \<bar>x\<bar>" using x by simp
  have "y / 2 powi (int n) < (2::real) powi b / 2 powi (int n)"
    using h by (simp add: divide_strict_right_mono)
  also have "\<dots> = 2 powi (b - int n)" by (simp add: power_int_diff)
  finally have B: "\<bar>x\<bar> < 2 powi (b - int n)" using x by simp
  from A B show ?thesis unfolding b_def m_def y_def by blast
qed

lemma expo_upper: "\<bar>x\<bar> < 2 powi (expo x + 1)"
proof (cases "0 < \<lfloor>\<bar>x\<bar> * 2 ^ 1074\<rfloor>")
  case True
  from binade_of_floor [OF True]
  have "\<bar>x\<bar> < 2 powi (bitlen \<lfloor>\<bar>x\<bar> * 2 ^ 1074\<rfloor> - int 1074)" by blast
  also have "\<dots> \<le> 2 powi (expo x + 1)"
    by (rule power_int_increasing) (simp_all add: expo_def)
  finally show ?thesis .
next
  case False
  moreover have "0 \<le> \<lfloor>\<bar>x\<bar> * 2 ^ 1074\<rfloor>" by simp
  ultimately have "\<lfloor>\<bar>x\<bar> * 2 ^ 1074\<rfloor> = 0" by linarith
  then have "\<bar>x\<bar> * 2 ^ 1074 < 1" by linarith
  then have "\<bar>x\<bar> < 1 / 2 ^ 1074" by (simp add: field_simps)
  also have "\<dots> = 2 powi (- 1074)" by (simp add: power_int_minus field_simps)
  also have "\<dots> \<le> 2 powi (expo x + 1)"
    by (rule power_int_increasing) (simp_all add: expo_def)
  finally show ?thesis .
qed

lemma expo_lower:
  assumes "- 1022 < expo x"
  shows "2 powi (expo x) \<le> \<bar>x\<bar>"
proof -
  from assms have e: "expo x = bitlen \<lfloor>\<bar>x\<bar> * 2 ^ 1074\<rfloor> - 1 - int 1074"
    by (simp add: expo_def max_def split: if_splits)
  with assms have "bitlen \<lfloor>\<bar>x\<bar> * 2 ^ 1074\<rfloor> \<noteq> 0" by linarith
  then have "0 < \<lfloor>\<bar>x\<bar> * 2 ^ 1074\<rfloor>" by (simp add: bitlen_eq_zero_iff)
  from binade_of_floor [OF this] e show ?thesis by simp
qed

lemma expo_ge: "- 1022 \<le> expo x"
  by (simp add: expo_def)

lemma expo_eq:
  assumes "2 powi k \<le> \<bar>x\<bar>" and "\<bar>x\<bar> < 2 powi (k + 1)" and "- 1022 \<le> k"
  shows "expo x = k"
proof -
  have "2 powi k < (2::real) powi (expo x + 1)" using assms(1) expo_upper [of x] by linarith
  then have 1: "k < expo x + 1"
    by (smt (verit) power_int_increasing)
  have 2: "expo x \<le> k"
  proof (rule ccontr)
    assume "\<not> expo x \<le> k"
    then have gt: "k < expo x" by simp
    with assms(3) have "- 1022 < expo x" by simp
    from expo_lower [OF this] assms(2) have "2 powi expo x < (2::real) powi (k + 1)" by linarith
    then have "expo x < k + 1" by (smt (verit) power_int_increasing)
    with gt show False by simp
  qed
  from 1 2 show ?thesis by simp
qed

lemma expo_small: "\<bar>x\<bar> < 2 powi (- 1021) \<Longrightarrow> expo x = - 1022"
proof -
  assume a: "\<bar>x\<bar> < 2 powi (- 1021)"
  show ?thesis
  proof (rule ccontr)
    assume "expo x \<noteq> - 1022"
    with expo_ge [of x] have gt: "- 1022 < expo x" by simp
    from expo_lower [OF gt] a have "2 powi expo x < (2::real) powi (- 1021)" by linarith
    then have "expo x < - 1021" by (smt (verit) power_int_increasing)
    with gt show False by simp
  qed
qed


lemma expo_abs: "expo (- x) = expo x"
  by (simp add: expo_def)

lemma expo_mono:
  assumes "\<bar>x\<bar> \<le> \<bar>y\<bar>"
  shows "expo x \<le> expo y"
proof (rule ccontr)
  assume "\<not> expo x \<le> expo y"
  then have gt: "expo y < expo x" by simp
  with expo_ge [of y] have "- 1022 < expo x" by simp
  from expo_lower [OF this] assms expo_upper [of y]
  have "2 powi expo x < (2::real) powi (expo y + 1)" by linarith
  then have "expo x < expo y + 1" by (smt (verit) power_int_increasing)
  with gt show False by simp
qed

lemma rint_nonneg: "0 \<le> v \<Longrightarrow> 0 \<le> rint v"
  using rint_mono [of 0 v] by (simp add: rint_def)

lemma rint_minus: "rint (- v) = - rint v"
proof (cases "v = of_int \<lfloor>v\<rfloor>")
  case True
  then obtain n where "v = of_int n" ..
  then have "- v = of_int (- n)" by simp
  then show ?thesis using \<open>v = of_int n\<close> by (metis rint_of_int)
next
  case False
  then have fl: "\<lfloor>- v\<rfloor> = - \<lfloor>v\<rfloor> - 1"
    by (smt (verit) ceiling_altdef ceiling_def)
  have lt: "of_int \<lfloor>v\<rfloor> < v" using False by (smt (verit) of_int_floor_le)
  show ?thesis
    unfolding rint_def Let_def fl
    using lt by (auto simp: algebra_simps) (linarith+)?
qed

lemma fl_minus: "fl (- x) = - fl x"
  by (simp add: fl_def expo_abs rint_minus)

lemma fl_nonneg: "0 \<le> x \<Longrightarrow> 0 \<le> fl x"
  by (simp add: fl_def rint_nonneg)

lemma fl_le_binade:
  assumes "0 \<le> x"
  shows "fl x \<le> 2 powi (expo x + 1)"
proof -
  define s :: real where "s = 2 powi (expo x - 52)"
  define N :: int where "N = 2 ^ 53"
  have s: "0 < s" by (simp add: s_def)
  have e: "53 + (expo x - 52) = expo x + 1" by simp
  have F: "(2::real) powi (53 + (expo x - 52)) = 2 powi 53 * 2 powi (expo x - 52)"
    by (rule power_int_add) simp
  have N: "(of_int N :: real) = 2 powi 53" by (simp add: N_def)
  have Ns: "of_int N * s = 2 powi (expo x + 1)"
    by (simp only: N s_def F [symmetric] e)
  have "x < 2 powi (expo x + 1)" using expo_upper [of x] assms by simp
  then have "x < of_int N * s" by (simp only: Ns)
  then have "x / s \<le> of_int N" using s by (simp add: field_simps)
  from rint_mono [OF this] have "rint (x / s) \<le> N" by (simp only: rint_of_int)
  then have "of_int (rint (x / s)) \<le> (of_int N :: real)" by (simp only: of_int_le_iff)
  then have "of_int (rint (x / s)) * s \<le> of_int N * s" using s by (simp add: mult_right_mono)
  then show ?thesis unfolding Ns by (simp add: fl_def s_def)
qed

lemma fl_ge_binade:
  assumes "0 \<le> x" and "- 1022 < expo x"
  shows "2 powi (expo x) \<le> fl x"
proof -
  define s :: real where "s = 2 powi (expo x - 52)"
  define N :: int where "N = 2 ^ 52"
  have s: "0 < s" by (simp add: s_def)
  have e: "52 + (expo x - 52) = expo x" by simp
  have F: "(2::real) powi (52 + (expo x - 52)) = 2 powi 52 * 2 powi (expo x - 52)"
    by (rule power_int_add) simp
  have N: "(of_int N :: real) = 2 powi 52" by (simp add: N_def)
  have Ns: "of_int N * s = 2 powi (expo x)"
    by (simp only: N s_def F [symmetric] e)
  have "2 powi (expo x) \<le> x" using expo_lower [OF assms(2)] assms(1) by simp
  then have "of_int N * s \<le> x" by (simp only: Ns)
  then have "of_int N \<le> x / s" using s by (simp add: field_simps)
  from rint_mono [OF this] have "N \<le> rint (x / s)" by (simp only: rint_of_int)
  then have "(of_int N :: real) \<le> of_int (rint (x / s))" by (simp only: of_int_le_iff)
  then have "of_int N * s \<le> of_int (rint (x / s)) * s" using s by (simp add: mult_right_mono)
  then show ?thesis unfolding Ns by (simp add: fl_def s_def)
qed

lemma fl_mono_nonneg:
  assumes "0 \<le> x" and "x \<le> y"
  shows "fl x \<le> fl y"
proof -
  have e: "expo x \<le> expo y" using assms by (intro expo_mono) simp
  show ?thesis
  proof (cases "expo x = expo y")
    case True
    let ?s = "(2::real) powi (expo y - 52)"
    have "x / ?s \<le> y / ?s" using assms by (simp add: divide_right_mono)
    from rint_mono [OF this] have "of_int (rint (x / ?s)) * ?s \<le> of_int (rint (y / ?s)) * ?s"
      by (simp add: mult_right_mono)
    then show ?thesis by (simp add: fl_def True)
  next
    case False
    with e have lt: "expo x + 1 \<le> expo y" by simp
    with expo_ge [of x] have n: "- 1022 < expo y" by simp
    have "fl x \<le> 2 powi (expo x + 1)" using assms(1) by (rule fl_le_binade)
    also have "\<dots> \<le> 2 powi (expo y)" using lt by (intro power_int_increasing) simp_all
    also have "\<dots> \<le> fl y" using assms n by (intro fl_ge_binade) simp_all
    finally show ?thesis .
  qed
qed

lemma fl_mono:
  assumes "x \<le> y"
  shows "fl x \<le> fl y"
proof (cases "0 \<le> x")
  case True
  then show ?thesis using assms by (rule fl_mono_nonneg)
next
  case neg: False
  show ?thesis
  proof (cases "0 \<le> y")
    case True
    have "fl (- x) \<ge> 0" using neg by (intro fl_nonneg) simp
    then have "fl x \<le> 0" by (simp add: fl_minus)
    also have "0 \<le> fl y" using True by (rule fl_nonneg)
    finally show ?thesis .
  next
    case False
    then have "fl (- y) \<le> fl (- x)" using assms by (intro fl_mono_nonneg) simp_all
    then show ?thesis by (simp add: fl_minus)
  qed
qed

lemma py_round_mono:
  assumes "a \<le> b"
  shows "py_round a n \<le> py_round b n"
proof -
  have "a * 10 ^ n \<le> b * 10 ^ n" using assms by (simp add: mult_right_mono)
  then have "rint (fl (a * 10 ^ n)) \<le> rint (fl (b * 10 ^ n))"
    by (intro rint_mono fl_mono)
  then have "of_int (rint (fl (a * 10 ^ n))) / 10 ^ n
      \<le> (of_int (rint (fl (b * 10 ^ n))) / 10 ^ n :: real)"
    by (simp add: divide_right_mono)
  then show ?thesis unfolding py_round_def by (rule fl_mono)
qed

lemma fl_eval:
  assumes "2 powi k \<le> \<bar>x\<bar>" and "\<bar>x\<bar> < 2 powi (k + 1)" and "- 1022 \<le> k"
  shows "fl x = of_int (rint (x / 2 powi (k - 52))) * 2 powi (k - 52)"
  by (simp add: fl_def expo_eq [OF assms])

lemma fl_0 [simp]: "fl 0 = 0"
  by (simp add: fl_def rint_def)







text \<open>Some values of \<open>round(v, 2)\<close>; the last two are ties of the double product.\<close>

lemma py_round_m0456: "py_round (- 0.456) 2 = fl (- 0.46)"
proof -
  have "rint (fl (- 0.456 * 10 ^ 2)) = - 46"
    by (subst fl_eval [of 5]) (simp_all add: rint_def Let_def)
  then show ?thesis by (simp add: py_round_def)
qed

lemma py_round_0789: "py_round 0.789 2 = fl 0.79"
proof -
  have "rint (fl (0.789 * 10 ^ 2)) = 79"
    by (subst fl_eval [of 6]) (simp_all add: rint_def Let_def)
  then show ?thesis by (simp add: py_round_def)
qed

lemma py_round_1234: "py_round 1.234 2 = fl 1.23"
proof -
  have "rint (fl (1.234 * 10 ^ 2)) = 123"
    by (subst fl_eval [of 6]) (simp_all add: rint_def Let_def)
  then show ?thesis by (simp add: py_round_def)
qed


lemma py_round_13: "py_round 1.3 2 = fl 1.3"
proof -
  have "rint (fl (1.3 * 10 ^ 2)) = 130"
    by (subst fl_eval [of 7]) (simp_all add: rint_def Let_def)
  then show ?thesis by (simp add: py_round_def)
qed

lemma py_round_m0002: "py_round (- 0.002) 2 = 0"
proof -
  have "rint (fl (- 0.002 * 10 ^ 2)) = 0"
    by (subst fl_eval [of "- 3"]) (simp_all add: rint_def Let_def)
  then show ?thesis by (simp add: py_round_def)
qed

lemma py_round_m0001: "py_round (- 0.001) 2 = 0"
proof -
  have "rint (fl (- 0.001 * 10 ^ 2)) = 0"
    by (subst fl_eval [of "- 4"]) (simp_all add: rint_def Let_def)
  then show ?thesis by (simp add: py_round_def)
qed

lemma py_round_0: "py_round 0 2 = 0"
  by (simp add: py_round_def rint_def)

lemma py_round_05: "py_round 0.5 2 = 0.5"
proof -
  have "rint (fl (0.5 * 10 ^ 2)) = 50"
    by (subst fl_eval [of 5]) (simp_all add: rint_def Let_def)
  moreover have "fl 0.5 = 0.5"
    by (subst fl_eval [of "- 1"]) (simp_all add: rint_def Let_def)
  ultimately show ?thesis by (simp add: py_round_def)
qed

lemma py_round_25: "py_round 2.5 2 = 2.5"
proof -
  have "rint (fl (2.5 * 10 ^ 2)) = 250"
    by (subst fl_eval [of 7]) (simp_all add: rint_def Let_def)
  moreover have "fl 2.5 = 2.5"
    by (subst fl_eval [of 1]) (simp_all add: rint_def Let_def)
  ultimately show ?thesis by (simp add: py_round_def)
qed

lemma py_round_tie_0015: "py_round 0.015 2 = fl 0.02"
proof -
  have "rint (fl (0.015 * 10 ^ 2)) = 2"
    by (subst fl_eval [of 0]) (simp_all add: rint_def Let_def)
  then show ?thesis by (simp add: py_round_def)
qed

lemma py_round_tie_0675: "py_round (6079859496950169 / 2 ^ 53) 2 = fl 0.68"
proof -
  have "rint (fl (6079859496950169 / 2 ^ 53 * 10 ^ 2)) = 68"
    by (subst fl_eval [of 6]) (simp_all add: rint_def Let_def)
  then show ?thesis by (simp add: py_round_def)
qed

lemmas py_round_values = py_round_m0456 py_round_0789 py_round_1234 py_round_13
  py_round_m0002 py_round_m0001 py_round_0 py_round_05 py_round_25

lemma Min_eq_Max_const:
  fixes S :: "real set"
  assumes "finite S" "S \<noteq> {}"
  shows "Min S = Max S \<longleftrightarrow> (\<forall>a \<in> S. \<forall>b \<in> S. a = b)"
proof
  assume eq: "Min S = Max S"
  show "\<forall>a \<in> S. \<forall>b \<in> S. a = b"
  proof (intro ballI)
    fix a b assume "a \<in> S" "b \<in> S"
    with assms have "Min S \<le> a" "a \<le> Max S" "Min S \<le> b" "b \<le> Max S" by simp_all
    with eq show "a = b" by linarith
  qed
next
  assume "\<forall>a \<in> S. \<forall>b \<in> S. a = b"
  moreover from assms have "Min S \<in> S" "Max S \<in> S" by simp_all
  ultimately show "Min S = Max S" by blast
qed

subsection \<open>The axis remap\<close>

lemma axis_remap_rows:
  "axis_remap (x, y, z) = (map uminus y, x, z)"
  by (simp add: axis_remap_def)

text \<open>
  C2: the remap sends the sample point \<open>(x, y, z)\<close> at every index to \<open>(- y, x, z)\<close>, and
  the remap applied twice sends it to \<open>(- x, - y, z)\<close>; the height is never changed.
\<close>

theorem axis_remap_rotation:
  assumes "rectangular p" and "i < length (fst p)"
  shows "point (axis_remap p) i = (case point p i of (x, y, z) \<Rightarrow> (- y, x, z))
       \<and> point (axis_remap (axis_remap p)) i = (case point p i of (x, y, z) \<Rightarrow> (- x, - y, z))
       \<and> snd (snd (axis_remap p)) = snd (snd p)
       \<and> rectangular (axis_remap p)"
  using assms
  by (cases p) (simp add: axis_remap_rows point_def rectangular_def)

theorem axis_remap_rotation_witness:
  "rectangular ([1, 2], [3, 4], [5, 6]) \<and> (1::nat) < length (fst ([1, 2], [3, 4], [5::real, 6]))
   \<and> point (axis_remap ([1, 2], [3, 4], [5, 6])) 1 = (- 4, 2, 6)
   \<and> point (axis_remap (axis_remap ([1, 2], [3, 4], [5, 6]))) 1 = (- 2, - 4, 6)"
  using axis_remap_rotation [of "([1, 2], [3, 4], [5, 6])" 1]
  by (simp add: rectangular_def point_def axis_remap_rows)

subsection \<open>The summary table\<close>




text \<open>
  C3 (as amended): for a non-empty sample \<open>drift_left \<le> drift_right\<close>; the two are
  equal when the \<open>x_new\<close> series is constant, and the unrounded minimum and maximum are
  equal only when it is constant.
\<close>

theorem drift_left_le_drift_right:
  assumes "rectangular p" and "fst p \<noteq> []" and "axis_remap p = (x_new, y_new, z)"
  shows "\<exists>t. summary_table p = Inr t \<and> drift_left t \<le> drift_right t
           \<and> ((\<forall>a \<in> set x_new. \<forall>b \<in> set x_new. a = b) \<longrightarrow> drift_left t = drift_right t)
           \<and> (py_min x_new = py_max x_new \<longrightarrow> (\<forall>a \<in> set x_new. \<forall>b \<in> set x_new. a = b))"
proof -
  obtain x y z0 where p: "p = (x, y, z0)" by (cases p)
  with assms have rows: "x_new = map uminus y" "y_new = x" "z = z0"
    by (simp_all add: axis_remap_rows)
  from assms p have ne: "map uminus y \<noteq> []" "x \<noteq> []" "z0 \<noteq> []"
    by (auto simp: rectangular_def)
  let ?t = "\<lparr>drift_left = py_round (Min (set x_new)) 2,
             drift_right = py_round (Max (set x_new)) 2,
             max_height = py_round (Max (set z)) 2,
             distance = py_round (Max (set y_new)) 2\<rparr>"
  have tab: "summary_table p = Inr ?t"
    unfolding rows p
    by (simp add: summary_table_def axis_remap_rows py_min_eq [OF ne(1)]
        py_max_eq [OF ne(1)] py_max_eq [OF ne(2)] py_max_eq [OF ne(3)])
  have fin: "finite (set x_new)" "set x_new \<noteq> {}" using ne rows by simp_all
  have le: "Min (set x_new) \<le> Max (set x_new)" using fin by simp
  have c: "Min (set x_new) = Max (set x_new) \<longleftrightarrow> (\<forall>a \<in> set x_new. \<forall>b \<in> set x_new. a = b)"
    by (rule Min_eq_Max_const [OF fin])
  have "drift_left ?t \<le> drift_right ?t" using le by (simp add: py_round_mono)
  moreover have "(\<forall>a \<in> set x_new. \<forall>b \<in> set x_new. a = b) \<longrightarrow> drift_left ?t = drift_right ?t"
  proof
    assume "\<forall>a \<in> set x_new. \<forall>b \<in> set x_new. a = b"
    with c have "Min (set x_new) = Max (set x_new)" by simp
    then show "drift_left ?t = drift_right ?t" by simp
  qed
  moreover have "py_min x_new = py_max x_new \<longrightarrow> (\<forall>a \<in> set x_new. \<forall>b \<in> set x_new. a = b)"
    using c unfolding rows by (simp add: py_min_eq [OF ne(1)] py_max_eq [OF ne(1)])
  ultimately show ?thesis using tab by blast
qed

theorem drift_left_le_drift_right_witness:
  "rectangular ([0, 0.5], [0.25, 0.25], [1.3, 1.2]) \<and> fst ([0, 0.5 :: real], [0.25, 0.25 :: real], [1.3, 1.2 :: real]) \<noteq> []
   \<and> axis_remap ([0, 0.5], [0.25, 0.25], [1.3, 1.2]) = ([- 0.25, - 0.25], [0, 0.5], [1.3, 1.2])
   \<and> (\<exists>t. summary_table ([0, 0.5], [0.25, 0.25], [1.3, 1.2]) = Inr t
          \<and> drift_left t \<le> drift_right t \<and> drift_left t = drift_right t)
   \<and> py_min [- 0.25, - 0.25] = py_max [- 0.25, - 0.25]"
  using drift_left_le_drift_right [of "([0, 0.5], [0.25, 0.25], [1.3, 1.2])"
      "[- 0.25, - 0.25]" "[0, 0.5]" "[1.3, 1.2]"]
  by (simp add: rectangular_def axis_remap_rows)

text \<open>
  The claim's "equal only when constant" fails for the shown values: a series that
  moves by less than the rounding step has one shown value for both drifts.
\<close>

theorem drift_equal_not_constant_counterexample:
  "rectangular ([0, 0.5], [0.001, 0.002], [1.3, 1.2])
   \<and> summary_table ([0, 0.5], [0.001, 0.002], [1.3, 1.2]) =
       Inr \<lparr>drift_left = 0, drift_right = 0, max_height = fl 1.3, distance = 0.5\<rparr>
   \<and> fst (axis_remap ([0, 0.5], [0.001, 0.002], [1.3, 1.2])) = [- 0.001, - 0.002]
   \<and> (- 0.001 :: real) \<noteq> - 0.002"
  using py_round_values
  by (simp add: rectangular_def summary_table_def axis_remap_rows)

text \<open>
  C10: the table needs a non-empty sample. With a position series of length zero the
  first \<open>min\<close> raises \<open>ValueError\<close> and there is no summary; with a non-empty one the
  table is always produced.
\<close>

theorem summary_needs_nonempty_sample:
  assumes "rectangular p"
  shows "(fst p = [] \<longrightarrow> summary_table p = Inl ValueError)
       \<and> (fst p \<noteq> [] \<longrightarrow> (\<exists>t. summary_table p = Inr t))"
proof -
  obtain x y z where p: "p = (x, y, z)" by (cases p)
  show ?thesis
  proof (cases "x = []")
    case True
    with assms p show ?thesis
      by (simp add: rectangular_def summary_table_def axis_remap_rows)
  next
    case False
    with assms p have ne: "map uminus y \<noteq> []" "x \<noteq> []" "z \<noteq> []"
      by (auto simp: rectangular_def)
    show ?thesis
      using p False
      by (simp add: summary_table_def axis_remap_rows py_min_eq [OF ne(1)]
          py_max_eq [OF ne(1)] py_max_eq [OF ne(2)] py_max_eq [OF ne(3)])
  qed
qed

theorem summary_needs_nonempty_sample_witness:
  "rectangular ([], [], []) \<and> summary_table ([], [], []) = Inl ValueError
   \<and> rectangular ([1], [2], [3]) \<and> fst ([1 :: real], [2 :: real], [3 :: real]) \<noteq> []
   \<and> (\<exists>t. summary_table ([1], [2], [3]) = Inr t)"
  using summary_needs_nonempty_sample [of "([], [], [])"]
    summary_needs_nonempty_sample [of "([1], [2], [3])"]
  by (simp add: rectangular_def)

subsection \<open>The disc selection\<close>

text \<open>
  The select box offers the four display names; each of them is a key of
  \<open>disc_names\<close>, so the lookup of an offered name raises no \<open>KeyError\<close>.
\<close>

lemma disc_selection_lookup:
  assumes "selected \<in> set (map fst disc_names)"
  shows "\<exists>ident. getitem disc_names selected = Inr ident
           \<and> ident \<in> {''dd2'', ''cd1'', ''cd5'', ''fd2''}"
  using assms by (auto simp: disc_names_def getitem_def)

lemma disc_names_distinct: "distinct (map fst disc_names) \<and> distinct (map snd disc_names)"
  by (simp add: disc_names_def)

subsection \<open>Running the stages\<close>

lemma bnd_emit: "bnd (emit ev) f s = f () (s\<lparr>trace := trace s @ [ev]\<rparr>)"
  by (simp add: bnd_def emit_def)

lemma bnd_pure_result:
  "bnd (pure_result r) f s = (case r of Inl e \<Rightarrow> (Inl e, s) | Inr a \<Rightarrow> f a s)"
  by (simp add: bnd_def pure_result_def split: sum.splits)

lemma bnd_ret: "bnd (ret a) f s = f a s"
  by (simp add: bnd_def ret_def)

lemma bnd_call:
  "bnd (call ev op) f s =
     (case op (world s) of
        (Inl e, w') \<Rightarrow> (Inl e, s\<lparr>world := w', trace := trace s @ [ev (Inl e)]\<rparr>)
      | (Inr a, w') \<Rightarrow> f a (s\<lparr>world := w', trace := trace s @ [ev (Inr a)]\<rparr>))"
  by (simp add: bnd_def call_def split: prod.splits sum.splits)

lemmas bnd_simps = bnd_emit bnd_pure_result bnd_ret bnd_call

lemmas obs_defs = shoot_outcomes_def shown_tables_def post_process_outcomes_def

lemma map_filter_append:
  "List.map_filter f (xs @ ys) = List.map_filter f xs @ List.map_filter f ys"
  by (simp add: List.map_filter_def)

lemma collect_eq:
  "collect u s =
     (case getitem disc_names (selectbox u ''Disc Selection'' (map fst disc_names)) of
        Inl e \<Rightarrow> (Inl e, s)
      | Inr name \<Rightarrow>
          (Inr \<lparr>disc_name = name, nose = slider u nose_slider, roll = slider u roll_slider,
                U = slider u U_slider, omega = slider u omega_slider,
                z0 = slider u z0_slider, pitch = slider u pitch_slider\<rparr>,
           s\<lparr>trace := trace s @ [Show_text Heading_orientation, Show_text Heading_throwing]\<rparr>))"
  by (simp add: collect_def bnd_simps Let_def ret_def split: sum.splits)

lemma orientation_effect:
  assumes "orientation c p s = (r, s')"
  shows "\<exists>evs. trace s' = trace s @ evs \<and> shoot_outcomes evs = [] \<and> shown_tables evs = []
       \<and> post_process_outcomes evs = []
       \<and> (\<forall>ev \<in> set evs. shoot_outcome ev = None)
       \<and> (\<forall>pos d. r = Inr (pos, d) \<longrightarrow>
             pos = (0, 0, z0 p) \<and> fst (DiscGolfDisc c (disc_name p) (world s)) = Inr d)"
  using assms
  by (auto simp: orientation_def bnd_simps Let_def ret_def emit_def obs_defs
      split: sum.splits prod.splits option.splits)

lemma flight_path_effect:
  assumes "flight_path c p (pos, d) s = (r, s')"
  shows "\<exists>evs. trace s' = trace s @ evs \<and> evs \<noteq> []
       \<and> shoot_outcomes evs =
           [fst (shoot c d (U p) (omega p) (pitch p) pos (nose p) (roll p) (world s))]
       \<and> (\<forall>d' a b k pos' n r' res. Call_shoot d' a b k pos' n r' res \<in> set evs \<longrightarrow>
             d' = d \<and> a = U p \<and> b = omega p \<and> k = pitch p \<and> pos' = pos \<and> n = nose p
             \<and> r' = roll p)
       \<and> (shown_tables evs = [] \<or>
            (\<exists>sh t. fst (shoot c d (U p) (omega p) (pitch p) pos (nose p) (roll p) (world s))
                       = Inr sh
               \<and> summary_table (position sh) = Inr t \<and> shown_tables evs = [t]))
       \<and> (\<forall>e. fst (shoot c d (U p) (omega p) (pitch p) pos (nose p) (roll p) (world s)) = Inl e
             \<longrightarrow> r = Inl e \<and> shown_tables evs = [] \<and> post_process_outcomes evs = []
                  \<and> shoot_outcome (last evs) = Some (Inl e))
       \<and> (\<forall>e. Inl e \<in> set (post_process_outcomes evs)
             \<longrightarrow> r = Inl e \<and> post_process_outcomes evs = [Inl e]
                  \<and> post_process_outcome (last evs) = Some (Inl e))"
  using assms
  by (auto simp: flight_path_def bnd_simps emit_def obs_defs
      split: sum.splits prod.splits)

lemma collect_fields:
  assumes "fst (collect u s) = Inr p"
  shows "getitem disc_names (selectbox u ''Disc Selection'' (map fst disc_names))
           = Inr (disc_name p)
       \<and> nose p = slider u nose_slider \<and> roll p = slider u roll_slider
       \<and> U p = slider u U_slider \<and> omega p = slider u omega_slider
       \<and> z0 p = slider u z0_slider \<and> pitch p = slider u pitch_slider"
  using assms by (auto simp: collect_eq split: sum.splits)

lemma collect_state:
  "fst (collect u s) = fst (collect u s') \<and> world (snd (collect u s)) = world s
   \<and> (\<exists>evs. trace (snd (collect u s)) = trace s @ evs \<and> shoot_outcomes evs = []
         \<and> shown_tables evs = [] \<and> post_process_outcomes evs = []
         \<and> (\<forall>ev \<in> set evs. shoot_outcome ev = None))"
  by (auto simp: collect_eq obs_defs split: sum.splits)

text \<open>
  The shape of every run: either it ends before the flight path block with an
  exception, or the flight path block runs once, on the collected parameters, the
  release position \<open>(0, 0, z0)\<close> and the disc built for the selected name.
\<close>

lemma main_anatomy [case_names stopped reached]:
  fixes c :: "('w, 'd, 'm, 'f) collab"
  obtains
    (stopped) "shoot_outcomes (trace (snd (main u c (start w)))) = []"
      and "shown_tables (trace (snd (main u c (start w)))) = []"
      and "post_process_outcomes (trace (snd (main u c (start w)))) = []"
      and "\<forall>ev \<in> set (trace (snd (main u c (start w)))). shoot_outcome ev = None"
      and "\<exists>e. fst (main u c (start w)) = Inl e"
  | (reached) p d s2 s3 where "fst (collect u (start w :: ('w, 'd, 'm, 'f) run)) = Inr p"
      and "fst (DiscGolfDisc c (disc_name p) w) = Inr d"
      and "shoot_outcomes (trace s2) = []" and "shown_tables (trace s2) = []"
      and "post_process_outcomes (trace s2) = []"
      and "\<forall>ev \<in> set (trace s2). shoot_outcome ev = None"
      and "flight_path c p ((0, 0, z0 p), d) s2 = (fst (main u c (start w)), s3)"
      and "trace (snd (main u c (start w))) =
             trace s3 @ (case fst (main u c (start w)) of Inl e \<Rightarrow> [] | Inr v \<Rightarrow> [Show_text Faq])"
proof -
  let ?s0 = "(start w :: ('w, 'd, 'm, 'f) run)\<lparr>trace := trace (start w) @ [Show_text Visitor_badge]\<rparr>"
  have m0: "main u c (start w) =
      bnd (collect u) (\<lambda>p. bnd (orientation c p) (\<lambda>pd. bnd (flight_path c p pd)
        (\<lambda>_. emit (Show_text Faq)))) ?s0"
    by (simp add: main_def bnd_emit)
  obtain rc s1 where c1: "collect u ?s0 = (rc, s1)" by (cases "collect u ?s0")
  from collect_state [of u ?s0 "start w :: ('w, 'd, 'm, 'f) run"] c1
  have rc: "rc = fst (collect u (start w :: ('w, 'd, 'm, 'f) run))" and w1: "world s1 = w"
    and t1: "shoot_outcomes (trace s1) = []" "shown_tables (trace s1) = []"
      "post_process_outcomes (trace s1) = []" "\<forall>ev \<in> set (trace s1). shoot_outcome ev = None"
    by (auto simp: start_def obs_defs map_filter_append)
  show thesis
  proof (cases rc)
    case (Inl e)
    with m0 c1 have m: "main u c (start w) = (Inl e, s1)" by (simp add: bnd_def)
    show thesis
      by (rule stopped) (use m t1 in simp_all)
  next
    case (Inr p)
    obtain ro s2 where o: "orientation c p s1 = (ro, s2)" by (cases "orientation c p s1")
    from orientation_effect [OF o] w1 t1
    have t2: "shoot_outcomes (trace s2) = []" "shown_tables (trace s2) = []"
      "post_process_outcomes (trace s2) = []" "\<forall>ev \<in> set (trace s2). shoot_outcome ev = None"
      and ro: "\<forall>pos d. ro = Inr (pos, d) \<longrightarrow>
                 pos = (0, 0, z0 p) \<and> fst (DiscGolfDisc c (disc_name p) w) = Inr d"
      by (auto simp: obs_defs map_filter_append)
    show thesis
    proof (cases ro)
      case (Inl e)
      with m0 c1 Inr o have m: "main u c (start w) = (Inl e, s2)" by (simp add: bnd_def)
      show thesis
        by (rule stopped) (use m t2 in simp_all)
    next
      case ro_ok: (Inr pd)
      obtain pos d where pd: "pd = (pos, d)" by (cases pd)
      with ro ro_ok have pos: "pos = (0, 0, z0 p)"
        and d: "fst (DiscGolfDisc c (disc_name p) w) = Inr d" by simp_all
      obtain rf s3 where f: "flight_path c p (pos, d) s2 = (rf, s3)"
        by (cases "flight_path c p (pos, d) s2")
      have m: "main u c (start w) =
          (case rf of Inl e \<Rightarrow> (Inl e, s3)
           | Inr v \<Rightarrow> (Inr (), s3\<lparr>trace := trace s3 @ [Show_text Faq]\<rparr>))"
        using m0 c1 Inr o ro_ok pd f by (simp add: bnd_def emit_def split: sum.splits)
      have rf: "rf = fst (main u c (start w))" using m by (cases rf) simp_all
      have cp: "fst (collect u (start w :: ('w, 'd, 'm, 'f) run)) = Inr p" using Inr rc by metis
      have tr: "trace (snd (main u c (start w))) =
          trace s3 @ (case rf of Inl e \<Rightarrow> [] | Inr v \<Rightarrow> [Show_text Faq])"
        using m by (cases rf) simp_all
      have f': "flight_path c p ((0, 0, z0 p), d) s2 = (fst (main u c (start w)), s3)"
        using f pos rf by simp
      have tr': "trace (snd (main u c (start w))) =
          trace s3 @ (case fst (main u c (start w)) of Inl e \<Rightarrow> [] | Inr v \<Rightarrow> [Show_text Faq])"
        using tr rf by simp
      show thesis
        by (rule reached [OF cp d t2 f' tr'])
    qed
  qed
qed

lemma main_cases [case_names early flight]:
  fixes c :: "('w, 'd, 'm, 'f) collab"
  obtains
    (early) "shoot_outcomes (trace (snd (main u c (start w)))) = []"
      and "shown_tables (trace (snd (main u c (start w)))) = []"
      and "post_process_outcomes (trace (snd (main u c (start w)))) = []"
      and "\<forall>ev \<in> set (trace (snd (main u c (start w)))). shoot_outcome ev = None"
      and "\<exists>e. fst (main u c (start w)) = Inl e"
  | (flight) p d w2 where "fst (collect u (start w :: ('w, 'd, 'm, 'f) run)) = Inr p"
      and "fst (DiscGolfDisc c (disc_name p) w) = Inr d"
      and "shoot_outcomes (trace (snd (main u c (start w)))) =
             [fst (shoot c d (U p) (omega p) (pitch p) (0, 0, z0 p) (nose p) (roll p) w2)]"
      and "\<forall>d' a b k pos' n r' res.
               Call_shoot d' a b k pos' n r' res \<in> set (trace (snd (main u c (start w)))) \<longrightarrow>
               d' = d \<and> a = U p \<and> b = omega p \<and> k = pitch p \<and> pos' = (0, 0, z0 p)
               \<and> n = nose p \<and> r' = roll p"
      and "shown_tables (trace (snd (main u c (start w)))) = [] \<or>
              (\<exists>sh t. fst (shoot c d (U p) (omega p) (pitch p) (0, 0, z0 p) (nose p) (roll p) w2)
                         = Inr sh
                 \<and> summary_table (position sh) = Inr t
                 \<and> shown_tables (trace (snd (main u c (start w)))) = [t])"
      and "\<forall>e. fst (shoot c d (U p) (omega p) (pitch p) (0, 0, z0 p) (nose p) (roll p) w2)
                   = Inl e
               \<longrightarrow> fst (main u c (start w)) = Inl e
                    \<and> shown_tables (trace (snd (main u c (start w)))) = []
                    \<and> post_process_outcomes (trace (snd (main u c (start w)))) = []
                    \<and> shoot_outcome (last (trace (snd (main u c (start w))))) = Some (Inl e)"
      and "\<forall>e. Inl e \<in> set (post_process_outcomes (trace (snd (main u c (start w)))))
               \<longrightarrow> fst (main u c (start w)) = Inl e
                    \<and> post_process_outcomes (trace (snd (main u c (start w)))) = [Inl e]
                    \<and> post_process_outcome (last (trace (snd (main u c (start w)))))
                        = Some (Inl e)"
proof (cases rule: main_anatomy [of u c w])
  case stopped
  then show thesis by (rule early)
next
  case (reached p d s2 s3)
  let ?R = "main u c (start w)"
  let ?S = "fst (shoot c d (U p) (omega p) (pitch p) (0, 0, z0 p) (nose p) (roll p) (world s2))"
  from flight_path_effect [OF reached(7)] obtain evs where
    tr3: "trace s3 = trace s2 @ evs" and ne: "evs \<noteq> []"
    and so: "shoot_outcomes evs = [?S]"
    and args: "\<forall>d' a b k pos' n r' res. Call_shoot d' a b k pos' n r' res \<in> set evs \<longrightarrow>
             d' = d \<and> a = U p \<and> b = omega p \<and> k = pitch p \<and> pos' = (0, 0, z0 p)
             \<and> n = nose p \<and> r' = roll p"
    and tabs: "shown_tables evs = [] \<or>
            (\<exists>sh t. ?S = Inr sh \<and> summary_table (position sh) = Inr t \<and> shown_tables evs = [t])"
    and sfail: "\<forall>e. ?S = Inl e \<longrightarrow> fst ?R = Inl e \<and> shown_tables evs = []
                  \<and> post_process_outcomes evs = [] \<and> shoot_outcome (last evs) = Some (Inl e)"
    and pfail: "\<forall>e. Inl e \<in> set (post_process_outcomes evs) \<longrightarrow> fst ?R = Inl e
                  \<and> post_process_outcomes evs = [Inl e]
                  \<and> post_process_outcome (last evs) = Some (Inl e)"
    by blast
  define post :: "('d, 'm, 'f) event list"
    where "post = (case fst ?R of Inl e \<Rightarrow> [] | Inr v \<Rightarrow> [Show_text Faq])"
  have tr: "trace (snd ?R) = trace s2 @ evs @ post"
    using reached(8) tr3 by (simp add: post_def)
  have post_obs: "shoot_outcomes post = []" "shown_tables post = []"
    "post_process_outcomes post = []" "\<forall>ev \<in> set post. shoot_outcome ev = None"
    by (simp_all add: post_def obs_defs split: sum.splits)
  have post_fail: "\<And>e. fst ?R = Inl e \<Longrightarrow> post = []"
    by (simp add: post_def)
  have o1: "shoot_outcomes (trace (snd ?R)) = [?S]"
    using tr reached(3) so post_obs by (simp add: obs_defs map_filter_append)
  have o2: "shown_tables (trace (snd ?R)) = shown_tables evs"
    using tr reached(4) post_obs by (simp add: obs_defs map_filter_append)
  have o3: "post_process_outcomes (trace (snd ?R)) = post_process_outcomes evs"
    using tr reached(5) post_obs by (simp add: obs_defs map_filter_append)
  have o4: "\<forall>d' a b k pos' n r' res.
               Call_shoot d' a b k pos' n r' res \<in> set (trace (snd ?R)) \<longrightarrow>
               d' = d \<and> a = U p \<and> b = omega p \<and> k = pitch p \<and> pos' = (0, 0, z0 p)
               \<and> n = nose p \<and> r' = roll p"
  proof (intro allI impI)
    fix d' a b k pos' n r' res
    assume "Call_shoot d' a b k pos' n r' res \<in> set (trace (snd ?R))"
    then have "Call_shoot d' a b k pos' n r' res \<in> set (trace s2)
        \<or> Call_shoot d' a b k pos' n r' res \<in> set evs
        \<or> Call_shoot d' a b k pos' n r' res \<in> set post"
      using tr by auto
    moreover have "Call_shoot d' a b k pos' n r' res \<notin> set (trace s2)"
      using reached(6) by fastforce
    moreover have "Call_shoot d' a b k pos' n r' res \<notin> set post"
      using post_obs(4) by fastforce
    ultimately have "Call_shoot d' a b k pos' n r' res \<in> set evs" by blast
    with args show "d' = d \<and> a = U p \<and> b = omega p \<and> k = pitch p \<and> pos' = (0, 0, z0 p)
               \<and> n = nose p \<and> r' = roll p" by blast
  qed
  have last_fail: "\<And>e. fst ?R = Inl e \<Longrightarrow> last (trace (snd ?R)) = last evs"
    using tr ne post_fail by simp
  have o5: "\<forall>e. ?S = Inl e \<longrightarrow> fst ?R = Inl e \<and> shown_tables (trace (snd ?R)) = []
                    \<and> post_process_outcomes (trace (snd ?R)) = []
                    \<and> shoot_outcome (last (trace (snd ?R))) = Some (Inl e)"
    using sfail o2 o3 last_fail by simp
  have o6: "\<forall>e. Inl e \<in> set (post_process_outcomes (trace (snd ?R)))
               \<longrightarrow> fst ?R = Inl e \<and> post_process_outcomes (trace (snd ?R)) = [Inl e]
                    \<and> post_process_outcome (last (trace (snd ?R))) = Some (Inl e)"
    using pfail o3 last_fail by simp
  have o7: "shown_tables (trace (snd ?R)) = [] \<or>
              (\<exists>sh t. ?S = Inr sh \<and> summary_table (position sh) = Inr t
                 \<and> shown_tables (trace (snd ?R)) = [t])"
    using tabs o2 by simp
  show thesis by (rule flight [OF reached(1) reached(2) o1 o4 o7 o5 o6])
qed

text \<open>A run that gets past the orientation preview calls \<open>shoot\<close>, once.\<close>

lemma flight_path_calls_shoot:
  assumes "flight_path c p (pos, d) s = (r, s')"
  shows "Call_shoot d (U p) (omega p) (pitch p) pos (nose p) (roll p)
           (fst (shoot c d (U p) (omega p) (pitch p) pos (nose p) (roll p) (world s)))
         \<in> set (trace s')"
  using assms
  by (auto simp: flight_path_def bnd_simps emit_def split: sum.splits prod.splits)

lemma orientation_succeeds:
  assumes "DiscGolfDisc c (disc_name p) (world s) = (Inr d, w1)"
    and "stl_meshes c (disc_name p) = Some m"
    and "visualize_disc c m (nose p) (roll p) w1 = (Inr fig, w2)"
  shows "orientation c p s =
     (Inr ((0, 0, z0 p), d),
      s\<lparr>world := w2,
        trace := trace s @
          [Call_DiscGolfDisc (disc_name p) (Inr d),
           Call_visualize_disc m (nose p) (roll p) (Inr fig),
           Show_text Text_orientation, Show_chart fig]\<rparr>)"
  using assms by (simp add: orientation_def bnd_simps ret_def Let_def)

lemma main_reaches_shoot:
  fixes c :: "('w, 'd, 'm, 'f) collab"
  assumes "getitem disc_names (selectbox u ''Disc Selection'' (map fst disc_names)) = Inr name"
    and "DiscGolfDisc c name w = (Inr d, w1)"
    and "stl_meshes c name = Some m"
    and "visualize_disc c m (slider u nose_slider) (slider u roll_slider) w1 = (Inr fig, w2)"
  shows "Call_shoot d (slider u U_slider) (slider u omega_slider) (slider u pitch_slider)
           (0, 0, slider u z0_slider) (slider u nose_slider) (slider u roll_slider)
           (fst (shoot c d (slider u U_slider) (slider u omega_slider) (slider u pitch_slider)
                  (0, 0, slider u z0_slider) (slider u nose_slider) (slider u roll_slider) w2))
         \<in> set (trace (snd (main u c (start w))))"
proof -
  define p where "p = \<lparr>disc_name = name, nose = slider u nose_slider,
      roll = slider u roll_slider, U = slider u U_slider, omega = slider u omega_slider,
      z0 = slider u z0_slider, pitch = slider u pitch_slider\<rparr>"
  define s1 :: "('w, 'd, 'm, 'f) run" where "s1 = \<lparr>world = w,
      trace = [Show_text Visitor_badge, Show_text Heading_orientation,
               Show_text Heading_throwing]\<rparr>"
  define s2 :: "('w, 'd, 'm, 'f) run" where "s2 = s1\<lparr>world := w2,
      trace := trace s1 @
          [Call_DiscGolfDisc (disc_name p) (Inr d),
           Call_visualize_disc m (nose p) (roll p) (Inr fig),
           Show_text Text_orientation, Show_chart fig]\<rparr>"
  have o: "orientation c p s1 = (Inr ((0, 0, z0 p), d), s2)"
    unfolding s2_def
    by (rule orientation_succeeds [where ?w1.0 = w1]) (simp_all add: p_def s1_def assms)
  obtain r s3 where f: "flight_path c p ((0, 0, z0 p), d) s2 = (r, s3)"
    by (cases "flight_path c p ((0, 0, z0 p), d) s2")
  have m: "main u c (start w) =
      (case r of Inl e \<Rightarrow> (Inl e, s3)
       | Inr v \<Rightarrow> (Inr (), s3\<lparr>trace := trace s3 @ [Show_text Faq]\<rparr>))"
    using assms(1) o f
    by (simp add: main_def bnd_emit bnd_def [of "collect u"] collect_eq start_def
        bnd_def [of "orientation c p"] bnd_def [of "flight_path c p ((0, 0, z0 p), d)"]
        emit_def p_def [symmetric] s1_def [symmetric] split: sum.splits)
  have "set (trace s3) \<subseteq> set (trace (snd (main u c (start w))))"
    using m by (cases r) auto
  moreover have "world s2 = w2" by (simp add: s2_def)
  ultimately show ?thesis using flight_path_calls_shoot [OF f] by (auto simp: p_def)
qed

lemma shoot_outcomes_member:
  assumes "Call_shoot d a b k pos n r res \<in> set tr"
  shows "res \<in> set (shoot_outcomes tr)"
  unfolding shoot_outcomes_def map_filter_def set_map
  by (rule image_eqI [where x = "Call_shoot d a b k pos n r res"]) (use assms in simp_all)

lemma main_shoots_once:
  fixes c :: "('w, 'd, 'm, 'f) collab"
  assumes "Call_shoot d a b k pos n r res \<in> set (trace (snd (main u c (start w))))"
  shows "shoot_outcomes (trace (snd (main u c (start w)))) = [res]"
proof (cases rule: main_cases [of u c w])
  case early
  with assms show ?thesis by fastforce
next
  case (flight p d0 w2)
  from shoot_outcomes_member [OF assms] flight(3) show ?thesis by simp
qed














subsection \<open>Sample runs\<close>

lemmas slider_defs = nose_slider_def roll_slider_def U_slider_def omega_slider_def
  z0_slider_def pitch_slider_def default_U_def default_omega_def default_z0_def
  default_pitch_def default_nose_def default_roll_def

lemma first_run_collect:
  "collect first_run s =
     (Inr first_run_parameters,
      s\<lparr>trace := trace s @ [Show_text Heading_orientation, Show_text Heading_throwing]\<rparr>)"
  by (simp add: collect_eq first_run_def first_run_parameters_def disc_names_def
      getitem_def slider_defs)

lemma demo_table:
  "summary_table (position (demo_shot (0, 0, 1.3))) =
     Inr \<lparr>drift_left = fl (- 0.46), drift_right = 0, max_height = fl 1.3, distance = 2.5\<rparr>"
  using py_round_values
  by (simp add: demo_shot_def summary_table_def axis_remap_rows)

lemma demo_remap:
  "axis_remap (position (demo_shot (0, 0, 1.3))) =
     ([0, - 0.456, - 0.2], [0, 1.234, 2.5], [1.3, 0.789, 0])"
  by (simp add: demo_shot_def axis_remap_rows)

lemma demo_orientation:
  fixes c :: "(nat, string, string, string) collab"
  assumes "DiscGolfDisc c = DiscGolfDisc demo_collab"
    and "stl_meshes c = stl_meshes demo_collab"
    and "visualize_disc c = visualize_disc demo_collab"
  shows "orientation c first_run_parameters s =
     (Inr ((0, 0, 1.3), ''dd2''),
      s\<lparr>world := Suc (Suc (world s)),
        trace := trace s @
          [Call_DiscGolfDisc ''dd2'' (Inr ''dd2''),
           Call_visualize_disc ''dd2'' 0 14.7 (Inr ''orientation''),
           Show_text Text_orientation, Show_chart ''orientation'']\<rparr>)"
  using assms
  by (simp add: orientation_def bnd_simps ret_def first_run_parameters_def demo_collab_def)

lemma demo_run:
  "main first_run demo_collab (start w) =
     (Inr (),
      \<lparr>world = w + 6,
       trace =
         [Show_text Visitor_badge, Show_text Heading_orientation, Show_text Heading_throwing,
          Call_DiscGolfDisc ''dd2'' (Inr ''dd2''),
          Call_visualize_disc ''dd2'' 0 14.7 (Inr ''orientation''),
          Show_text Text_orientation, Show_chart ''orientation'',
          Show_text Text_flight_path,
          Call_shoot ''dd2'' 24.2 116.8 15.5 (0, 0, 1.3) 0 14.7 (Inr (demo_shot (0, 0, 1.3))),
          Call_get_plot [0, - 0.456, - 0.2] [0, 1.234, 2.5] [1.3, 0.789, 0] (Inr ''trajectory''),
          Show_chart ''trajectory'',
          Show_table \<lparr>drift_left = fl (- 0.46), drift_right = 0, max_height = fl 1.3, distance = 2.5\<rparr>,
          Call_post_process ''dd2'' (demo_shot (0, 0, 1.3)) 116.8 (Inr ([], [], [], [], [], [], [])),
          Call_get_subplots [] [] [] [] [] [] ([1, 1, 1], [0, 0, 0], [0, 0, 0]) (Inr ''science''),
          Show_chart ''science'', Show_text Faq]\<rparr>)"
proof -
  have fp: "\<And>s. flight_path demo_collab first_run_parameters ((0, 0, 1.3), ''dd2'') s =
      (Inr (), s\<lparr>world := world s + 4,
         trace := trace s @
          [Show_text Text_flight_path,
           Call_shoot ''dd2'' 24.2 116.8 15.5 (0, 0, 1.3) 0 14.7 (Inr (demo_shot (0, 0, 1.3))),
           Call_get_plot [0, - 0.456, - 0.2] [0, 1.234, 2.5] [1.3, 0.789, 0] (Inr ''trajectory''),
           Show_chart ''trajectory'',
           Show_table \<lparr>drift_left = fl (- 0.46), drift_right = 0, max_height = fl 1.3, distance = 2.5\<rparr>,
           Call_post_process ''dd2'' (demo_shot (0, 0, 1.3)) 116.8 (Inr ([], [], [], [], [], [], [])),
           Call_get_subplots [] [] [] [] [] [] ([1, 1, 1], [0, 0, 0], [0, 0, 0]) (Inr ''science''),
           Show_chart ''science'']\<rparr>)"
    by (simp add: flight_path_def bnd_simps emit_def first_run_parameters_def
        demo_collab_def demo_remap demo_table)
      (simp add: demo_shot_def)
  show ?thesis
    by (simp add: main_def bnd_emit bnd_def [of "collect first_run"] first_run_collect
        bnd_def [of "orientation demo_collab first_run_parameters"]
        demo_orientation [of demo_collab]
        bnd_def [of "flight_path demo_collab first_run_parameters ((0, 0, 1.3), ''dd2'')"] fp
        emit_def start_def)
qed

lemma failing_shoot_run:
  "main first_run failing_shoot (start w) =
     (Inl (Raised ''unstable''),
      \<lparr>world = w + 3,
       trace =
         [Show_text Visitor_badge, Show_text Heading_orientation, Show_text Heading_throwing,
          Call_DiscGolfDisc ''dd2'' (Inr ''dd2''),
          Call_visualize_disc ''dd2'' 0 14.7 (Inr ''orientation''),
          Show_text Text_orientation, Show_chart ''orientation'',
          Show_text Text_flight_path,
          Call_shoot ''dd2'' 24.2 116.8 15.5 (0, 0, 1.3) 0 14.7 (Inl (Raised ''unstable''))]\<rparr>)"
proof -
  have fp: "\<And>s. flight_path failing_shoot first_run_parameters ((0, 0, 1.3), ''dd2'') s =
      (Inl (Raised ''unstable''), s\<lparr>world := world s + 1,
         trace := trace s @
          [Show_text Text_flight_path,
           Call_shoot ''dd2'' 24.2 116.8 15.5 (0, 0, 1.3) 0 14.7 (Inl (Raised ''unstable''))]\<rparr>)"
    by (simp add: flight_path_def bnd_simps emit_def first_run_parameters_def
        failing_shoot_def demo_collab_def)
  have o: "\<And>s. orientation failing_shoot first_run_parameters s =
      (Inr ((0, 0, 1.3), ''dd2''),
            s\<lparr>world := Suc (Suc (world s)),
              trace := trace s @
                [Call_DiscGolfDisc ''dd2'' (Inr ''dd2''),
                 Call_visualize_disc ''dd2'' 0 14.7 (Inr ''orientation''),
                 Show_text Text_orientation, Show_chart ''orientation'']\<rparr>)"
    by (rule demo_orientation) (simp_all add: failing_shoot_def)
  show ?thesis
    by (simp add: main_def bnd_emit bnd_def [of "collect first_run"] first_run_collect
        bnd_def [of "orientation failing_shoot first_run_parameters"] o
        bnd_def [of "flight_path failing_shoot first_run_parameters ((0, 0, 1.3), ''dd2'')"] fp
        emit_def start_def)
qed

lemma failing_post_process_run:
  "main first_run failing_post_process (start w) =
     (Inl (Raised ''no angles''),
      \<lparr>world = w + 5,
       trace =
         [Show_text Visitor_badge, Show_text Heading_orientation, Show_text Heading_throwing,
          Call_DiscGolfDisc ''dd2'' (Inr ''dd2''),
          Call_visualize_disc ''dd2'' 0 14.7 (Inr ''orientation''),
          Show_text Text_orientation, Show_chart ''orientation'',
          Show_text Text_flight_path,
          Call_shoot ''dd2'' 24.2 116.8 15.5 (0, 0, 1.3) 0 14.7 (Inr (demo_shot (0, 0, 1.3))),
          Call_get_plot [0, - 0.456, - 0.2] [0, 1.234, 2.5] [1.3, 0.789, 0] (Inr ''trajectory''),
          Show_chart ''trajectory'',
          Show_table \<lparr>drift_left = fl (- 0.46), drift_right = 0, max_height = fl 1.3, distance = 2.5\<rparr>,
          Call_post_process ''dd2'' (demo_shot (0, 0, 1.3)) 116.8 (Inl (Raised ''no angles''))]\<rparr>)"
proof -
  have fp: "\<And>s. flight_path failing_post_process first_run_parameters ((0, 0, 1.3), ''dd2'') s =
      (Inl (Raised ''no angles''), s\<lparr>world := world s + 3,
         trace := trace s @
          [Show_text Text_flight_path,
           Call_shoot ''dd2'' 24.2 116.8 15.5 (0, 0, 1.3) 0 14.7 (Inr (demo_shot (0, 0, 1.3))),
           Call_get_plot [0, - 0.456, - 0.2] [0, 1.234, 2.5] [1.3, 0.789, 0] (Inr ''trajectory''),
           Show_chart ''trajectory'',
           Show_table \<lparr>drift_left = fl (- 0.46), drift_right = 0, max_height = fl 1.3, distance = 2.5\<rparr>,
           Call_post_process ''dd2'' (demo_shot (0, 0, 1.3)) 116.8 (Inl (Raised ''no angles''))]\<rparr>)"
    by (simp add: flight_path_def bnd_simps emit_def first_run_parameters_def
        failing_post_process_def demo_collab_def demo_remap demo_table)
  have o: "\<And>s. orientation failing_post_process first_run_parameters s =
      (Inr ((0, 0, 1.3), ''dd2''),
            s\<lparr>world := Suc (Suc (world s)),
              trace := trace s @
                [Call_DiscGolfDisc ''dd2'' (Inr ''dd2''),
                 Call_visualize_disc ''dd2'' 0 14.7 (Inr ''orientation''),
                 Show_text Text_orientation, Show_chart ''orientation'']\<rparr>)"
    by (rule demo_orientation) (simp_all add: failing_post_process_def)
  show ?thesis
    by (simp add: main_def bnd_emit bnd_def [of "collect first_run"] first_run_collect
        bnd_def [of "orientation failing_post_process first_run_parameters"] o
        bnd_def [of "flight_path failing_post_process first_run_parameters ((0, 0, 1.3), ''dd2'')"] fp
        emit_def start_def)
qed




subsection \<open>Defaults and ranges\<close>

text \<open>
  C5: the six defaults are 24.2, 116.8, 1.3, 15.5, 0.0 and 14.7, each slider starts at
  the default of its parameter, and on the first run these are the collected values.
\<close>

theorem defaults_are_initial_slider_values:
  "default_U = 24.2 \<and> default_omega = 116.8 \<and> default_z0 = 1.3 \<and> default_pitch = 15.5
   \<and> default_nose = 0.0 \<and> default_roll = 14.7
   \<and> init_value U_slider = default_U \<and> init_value omega_slider = default_omega
   \<and> init_value z0_slider = default_z0 \<and> init_value pitch_slider = default_pitch
   \<and> init_value nose_slider = default_nose \<and> init_value roll_slider = default_roll
   \<and> fst (collect first_run s) =
       Inr \<lparr>disc_name = ''dd2'', nose = default_nose, roll = default_roll, U = default_U,
            omega = default_omega, z0 = default_z0, pitch = default_pitch\<rparr>"
  by (simp add: first_run_collect first_run_parameters_def slider_defs)

text \<open>
  C6: the sliders are declared with the ranges \<open>[-45, 90]\<close>, \<open>[-90, 90]\<close>, \<open>[0, 40]\<close>,
  \<open>[0, 200]\<close>, \<open>[0, 2]\<close> and \<open>[0, 90]\<close> (nose, roll, speed, spin, height, pitch). When
  every slider returns a value within its declared bounds, the collected parameters
  and the arguments of every \<open>shoot\<close> call lie within these ranges.
\<close>

theorem collected_parameters_in_declared_ranges:
  fixes c :: "('w, 'd, 'm, 'f) collab"
  assumes "sliders_in_bounds u"
  shows "map (\<lambda>cfg. (min_value cfg, max_value cfg)) sliders =
           [(- 45, 90), (- 90, 90), (0, 40), (0, 200), (0, 2), (0, 90)]
       \<and> (\<forall>p. fst (collect u s) = Inr p \<longrightarrow> in_declared_ranges p)
       \<and> (\<forall>d a b k pos n r res.
             Call_shoot d a b k pos n r res \<in> set (trace (snd (main u c (start w)))) \<longrightarrow>
             0 \<le> a \<and> a \<le> 40 \<and> 0 \<le> b \<and> b \<le> 200 \<and> 0 \<le> k \<and> k \<le> 90
             \<and> fst pos = 0 \<and> fst (snd pos) = 0 \<and> 0 \<le> snd (snd pos) \<and> snd (snd pos) \<le> 2
             \<and> - 45 \<le> n \<and> n \<le> 90 \<and> - 90 \<le> r \<and> r \<le> 90)"
proof -
  have decl: "map (\<lambda>cfg. (min_value cfg, max_value cfg)) sliders =
           [(- 45, 90), (- 90, 90), (0, 40), (0, 200), (0, 2), (0, 90)]"
    by (simp add: sliders_def slider_defs)
  from assms have b:
    "- 45 \<le> slider u nose_slider" "slider u nose_slider \<le> 90"
    "- 90 \<le> slider u roll_slider" "slider u roll_slider \<le> 90"
    "0 \<le> slider u U_slider" "slider u U_slider \<le> 40"
    "0 \<le> slider u omega_slider" "slider u omega_slider \<le> 200"
    "0 \<le> slider u z0_slider" "slider u z0_slider \<le> 2"
    "0 \<le> slider u pitch_slider" "slider u pitch_slider \<le> 90"
    unfolding sliders_in_bounds_def sliders_def
    by (simp_all add: nose_slider_def roll_slider_def U_slider_def omega_slider_def
        z0_slider_def pitch_slider_def)
  have coll: "\<And>(s :: ('x, 'y, 'z, 'v) run) p. fst (collect u s) = Inr p \<Longrightarrow> in_declared_ranges p"
  proof -
    fix s :: "('x, 'y, 'z, 'v) run" and p
    assume "fst (collect u s) = Inr p"
    from collect_fields [OF this] b show "in_declared_ranges p"
      by (simp add: in_declared_ranges_def)
  qed
  have "\<And>d a b k pos n r res.
      Call_shoot d a b k pos n r res \<in> set (trace (snd (main u c (start w)))) \<Longrightarrow>
      0 \<le> a \<and> a \<le> 40 \<and> 0 \<le> b \<and> b \<le> 200 \<and> 0 \<le> k \<and> k \<le> 90
      \<and> fst pos = 0 \<and> fst (snd pos) = 0 \<and> 0 \<le> snd (snd pos) \<and> snd (snd pos) \<le> 2
      \<and> - 45 \<le> n \<and> n \<le> 90 \<and> - 90 \<le> r \<and> r \<le> 90"
  proof -
    fix d a b k pos n r res
    assume mem: "Call_shoot d a b k pos n r res \<in> set (trace (snd (main u c (start w))))"
    show "0 \<le> a \<and> a \<le> 40 \<and> 0 \<le> b \<and> b \<le> 200 \<and> 0 \<le> k \<and> k \<le> 90
      \<and> fst pos = 0 \<and> fst (snd pos) = 0 \<and> 0 \<le> snd (snd pos) \<and> snd (snd pos) \<le> 2
      \<and> - 45 \<le> n \<and> n \<le> 90 \<and> - 90 \<le> r \<and> r \<le> 90"
    proof (cases rule: main_cases [of u c w])
      case early
      with mem show ?thesis by fastforce
    next
      case (flight p d0 w2)
      from flight(4) mem have eq: "a = U p" "b = omega p" "k = pitch p" "pos = (0, 0, z0 p)"
        "n = nose p" "r = roll p" by blast+
      from coll [OF flight(1)] show ?thesis unfolding eq by (simp add: in_declared_ranges_def)
    qed
  qed
  with decl coll show ?thesis by blast
qed

theorem collected_parameters_in_declared_ranges_witness:
  "sliders_in_bounds first_run
   \<and> fst (collect first_run (start (0 :: nat) :: (nat, string, string, string) run))
       = Inr first_run_parameters
   \<and> in_declared_ranges first_run_parameters
   \<and> Call_shoot ''dd2'' 24.2 116.8 15.5 (0, 0, 1.3) 0 14.7 (Inr (demo_shot (0, 0, 1.3)))
       \<in> set (trace (snd (main first_run demo_collab (start 0))))
   \<and> (0 :: real) \<le> 24.2 \<and> (24.2 :: real) \<le> 40"
proof -
  have h: "sliders_in_bounds first_run"
    by (simp add: sliders_in_bounds_def sliders_def first_run_def slider_defs)
  from collected_parameters_in_declared_ranges [OF h, of "start (0 :: nat) :: (nat, string, string, string) run" demo_collab 0]
  show ?thesis using h
    by (simp add: first_run_collect demo_run)
qed

subsection \<open>The call of the physics collaborator\<close>

text \<open>
  C7: a run in which the lookup of the selected name, the construction of the disc,
  the lookup of its mesh and the orientation preview return calls \<open>shoot\<close>, on the
  disc built for the selected name, with exactly the slider values for speed, spin and
  pitch, the release position \<open>(0, 0, release height)\<close> and the slider values for nose
  and roll angle, and this is its only \<open>shoot\<close> call. Conversely every \<open>shoot\<close> call of
  any run has exactly these arguments and is the only one of the run.
\<close>

theorem shoot_invoked_with_collected_parameters:
  fixes c :: "('w, 'd, 'm, 'f) collab"
  shows "(\<forall>name d w1 m fig w2.
            getitem disc_names (selectbox u ''Disc Selection'' (map fst disc_names)) = Inr name
            \<and> DiscGolfDisc c name w = (Inr d, w1)
            \<and> stl_meshes c name = Some m
            \<and> visualize_disc c m (slider u nose_slider) (slider u roll_slider) w1 = (Inr fig, w2)
            \<longrightarrow>
            Call_shoot d (slider u U_slider) (slider u omega_slider) (slider u pitch_slider)
              (0, 0, slider u z0_slider) (slider u nose_slider) (slider u roll_slider)
              (fst (shoot c d (slider u U_slider) (slider u omega_slider) (slider u pitch_slider)
                     (0, 0, slider u z0_slider) (slider u nose_slider) (slider u roll_slider) w2))
              \<in> set (trace (snd (main u c (start w))))
            \<and> shoot_outcomes (trace (snd (main u c (start w)))) =
                [fst (shoot c d (slider u U_slider) (slider u omega_slider)
                       (slider u pitch_slider) (0, 0, slider u z0_slider)
                       (slider u nose_slider) (slider u roll_slider) w2)])
       \<and> (\<forall>d a b k pos n r res.
            Call_shoot d a b k pos n r res \<in> set (trace (snd (main u c (start w)))) \<longrightarrow>
            (\<exists>name. getitem disc_names (selectbox u ''Disc Selection'' (map fst disc_names))
                      = Inr name
               \<and> fst (DiscGolfDisc c name w) = Inr d)
            \<and> a = slider u U_slider \<and> b = slider u omega_slider \<and> k = slider u pitch_slider
            \<and> pos = (0, 0, slider u z0_slider)
            \<and> n = slider u nose_slider \<and> r = slider u roll_slider
            \<and> shoot_outcomes (trace (snd (main u c (start w)))) = [res])"
proof (rule conjI)
  show "\<forall>name d w1 m fig w2.
            getitem disc_names (selectbox u ''Disc Selection'' (map fst disc_names)) = Inr name
            \<and> DiscGolfDisc c name w = (Inr d, w1)
            \<and> stl_meshes c name = Some m
            \<and> visualize_disc c m (slider u nose_slider) (slider u roll_slider) w1 = (Inr fig, w2)
            \<longrightarrow>
            Call_shoot d (slider u U_slider) (slider u omega_slider) (slider u pitch_slider)
              (0, 0, slider u z0_slider) (slider u nose_slider) (slider u roll_slider)
              (fst (shoot c d (slider u U_slider) (slider u omega_slider) (slider u pitch_slider)
                     (0, 0, slider u z0_slider) (slider u nose_slider) (slider u roll_slider) w2))
              \<in> set (trace (snd (main u c (start w))))
            \<and> shoot_outcomes (trace (snd (main u c (start w)))) =
                [fst (shoot c d (slider u U_slider) (slider u omega_slider)
                       (slider u pitch_slider) (0, 0, slider u z0_slider)
                       (slider u nose_slider) (slider u roll_slider) w2)]"
  proof (intro allI impI, elim conjE)
    fix name d w1 m fig w2
    assume "getitem disc_names (selectbox u ''Disc Selection'' (map fst disc_names)) = Inr name"
      and "DiscGolfDisc c name w = (Inr d, w1)"
      and "stl_meshes c name = Some m"
      and "visualize_disc c m (slider u nose_slider) (slider u roll_slider) w1 = (Inr fig, w2)"
    then have mem: "Call_shoot d (slider u U_slider) (slider u omega_slider)
        (slider u pitch_slider) (0, 0, slider u z0_slider) (slider u nose_slider)
        (slider u roll_slider)
        (fst (shoot c d (slider u U_slider) (slider u omega_slider) (slider u pitch_slider)
               (0, 0, slider u z0_slider) (slider u nose_slider) (slider u roll_slider) w2))
        \<in> set (trace (snd (main u c (start w))))"
      by (rule main_reaches_shoot)
    from mem main_shoots_once [OF mem]
    show "Call_shoot d (slider u U_slider) (slider u omega_slider) (slider u pitch_slider)
              (0, 0, slider u z0_slider) (slider u nose_slider) (slider u roll_slider)
              (fst (shoot c d (slider u U_slider) (slider u omega_slider) (slider u pitch_slider)
                     (0, 0, slider u z0_slider) (slider u nose_slider) (slider u roll_slider) w2))
              \<in> set (trace (snd (main u c (start w))))
            \<and> shoot_outcomes (trace (snd (main u c (start w)))) =
                [fst (shoot c d (slider u U_slider) (slider u omega_slider)
                       (slider u pitch_slider) (0, 0, slider u z0_slider)
                       (slider u nose_slider) (slider u roll_slider) w2)]"
      by (rule conjI)
  qed
next
  show "\<forall>d a b k pos n r res.
            Call_shoot d a b k pos n r res \<in> set (trace (snd (main u c (start w)))) \<longrightarrow>
            (\<exists>name. getitem disc_names (selectbox u ''Disc Selection'' (map fst disc_names))
                      = Inr name
               \<and> fst (DiscGolfDisc c name w) = Inr d)
            \<and> a = slider u U_slider \<and> b = slider u omega_slider \<and> k = slider u pitch_slider
            \<and> pos = (0, 0, slider u z0_slider)
            \<and> n = slider u nose_slider \<and> r = slider u roll_slider
            \<and> shoot_outcomes (trace (snd (main u c (start w)))) = [res]"
  proof (intro allI impI)
    fix d a b k pos n r res
    assume mem: "Call_shoot d a b k pos n r res \<in> set (trace (snd (main u c (start w))))"
    show "(\<exists>name. getitem disc_names (selectbox u ''Disc Selection'' (map fst disc_names))
                      = Inr name
               \<and> fst (DiscGolfDisc c name w) = Inr d)
            \<and> a = slider u U_slider \<and> b = slider u omega_slider \<and> k = slider u pitch_slider
            \<and> pos = (0, 0, slider u z0_slider)
            \<and> n = slider u nose_slider \<and> r = slider u roll_slider
            \<and> shoot_outcomes (trace (snd (main u c (start w)))) = [res]"
    proof (cases rule: main_cases [of u c w])
      case early
      with mem show ?thesis by fastforce
    next
      case (flight p d0 w2)
      from flight(4) mem have eq: "d = d0" "a = U p" "b = omega p" "k = pitch p"
        "pos = (0, 0, z0 p)" "n = nose p" "r = roll p" by blast+
      from collect_fields [OF flight(1)] flight(2) main_shoots_once [OF mem]
      show ?thesis unfolding eq by simp
    qed
  qed
qed

theorem shoot_invoked_with_collected_parameters_witness:
  "getitem disc_names (selectbox first_run ''Disc Selection'' (map fst disc_names)) = Inr ''dd2''
   \<and> DiscGolfDisc demo_collab ''dd2'' 0 = (Inr ''dd2'', 1)
   \<and> stl_meshes demo_collab ''dd2'' = Some ''dd2''
   \<and> visualize_disc demo_collab ''dd2'' (slider first_run nose_slider)
        (slider first_run roll_slider) 1 = (Inr ''orientation'', 2)
   \<and> slider first_run U_slider = 24.2 \<and> slider first_run z0_slider = 1.3
   \<and> fst (shoot demo_collab ''dd2'' 24.2 116.8 15.5 (0, 0, 1.3) 0 14.7 2)
       = Inr (demo_shot (0, 0, 1.3))
   \<and> Call_shoot ''dd2'' 24.2 116.8 15.5 (0, 0, 1.3) 0 14.7 (Inr (demo_shot (0, 0, 1.3)))
       \<in> set (trace (snd (main first_run demo_collab (start 0))))
   \<and> shoot_outcomes (trace (snd (main first_run demo_collab (start 0))))
       = [Inr (demo_shot (0, 0, 1.3))]"
proof -
  have h: "Call_shoot ''dd2'' 24.2 116.8 15.5 (0, 0, 1.3) 0 14.7 (Inr (demo_shot (0, 0, 1.3)))
       \<in> set (trace (snd (main first_run demo_collab (start 0))))"
    by (simp add: demo_run)
  have g: "getitem disc_names (selectbox first_run ''Disc Selection'' (map fst disc_names))
      = Inr ''dd2''
    \<and> DiscGolfDisc demo_collab ''dd2'' 0 = (Inr ''dd2'', 1)
    \<and> stl_meshes demo_collab ''dd2'' = Some ''dd2''
    \<and> visualize_disc demo_collab ''dd2'' (slider first_run nose_slider)
        (slider first_run roll_slider) 1 = (Inr ''orientation'', 2)"
    by (simp add: first_run_def disc_names_def getitem_def demo_collab_def)
  note T = shoot_invoked_with_collected_parameters [of first_run demo_collab 0]
  from T h have once: "shoot_outcomes (trace (snd (main first_run demo_collab (start 0))))
      = [Inr (demo_shot (0, 0, 1.3))]"
    by blast
  from T g have "Call_shoot ''dd2'' (slider first_run U_slider) (slider first_run omega_slider)
      (slider first_run pitch_slider) (0, 0, slider first_run z0_slider)
      (slider first_run nose_slider) (slider first_run roll_slider)
      (fst (shoot demo_collab ''dd2'' (slider first_run U_slider) (slider first_run omega_slider)
             (slider first_run pitch_slider) (0, 0, slider first_run z0_slider)
             (slider first_run nose_slider) (slider first_run roll_slider) 2))
      \<in> set (trace (snd (main first_run demo_collab (start 0))))"
    by blast
  moreover have "slider first_run U_slider = 24.2 \<and> slider first_run z0_slider = 1.3"
    by (simp add: first_run_def slider_defs)
  moreover have "fst (shoot demo_collab ''dd2'' 24.2 116.8 15.5 (0, 0, 1.3) 0 14.7 2)
       = Inr (demo_shot (0, 0, 1.3))"
    by (simp add: demo_collab_def)
  ultimately show ?thesis using h g once by simp
qed

subsection \<open>Failures of the physics collaborator\<close>

text \<open>
  C9: when \<open>shoot\<close> or \<open>post_process\<close> raises, the run ends with that same exception.
  The failing call is the last event of the run and the only call of its kind (no
  retry); after a failed \<open>shoot\<close> no table is shown and \<open>post_process\<close> is not called
  (nothing is substituted).
\<close>

theorem physics_failure_propagates:
  fixes c :: "('w, 'd, 'm, 'f) collab"
  assumes "Inl e \<in> set (shoot_outcomes (trace (snd (main u c (start w)))))
         \<or> Inl e \<in> set (post_process_outcomes (trace (snd (main u c (start w)))))"
  shows "fst (main u c (start w)) = Inl e
       \<and> length (shoot_outcomes (trace (snd (main u c (start w))))) = 1
       \<and> (Inl e \<in> set (shoot_outcomes (trace (snd (main u c (start w))))) \<longrightarrow>
            shown_tables (trace (snd (main u c (start w)))) = []
            \<and> post_process_outcomes (trace (snd (main u c (start w)))) = []
            \<and> shoot_outcome (last (trace (snd (main u c (start w))))) = Some (Inl e))
       \<and> (Inl e \<in> set (post_process_outcomes (trace (snd (main u c (start w))))) \<longrightarrow>
            post_process_outcomes (trace (snd (main u c (start w)))) = [Inl e]
            \<and> post_process_outcome (last (trace (snd (main u c (start w))))) = Some (Inl e))"
proof (cases rule: main_cases [of u c w])
  case early
  with assms show ?thesis by simp
next
  case (flight p d w2)
  let ?S = "fst (shoot c d (U p) (omega p) (pitch p) (0, 0, z0 p) (nose p) (roll p) w2)"
  have one: "length (shoot_outcomes (trace (snd (main u c (start w))))) = 1"
    using flight(3) by simp
  have s: "Inl e \<in> set (shoot_outcomes (trace (snd (main u c (start w))))) \<longrightarrow>
      fst (main u c (start w)) = Inl e
      \<and> shown_tables (trace (snd (main u c (start w)))) = []
      \<and> post_process_outcomes (trace (snd (main u c (start w)))) = []
      \<and> shoot_outcome (last (trace (snd (main u c (start w))))) = Some (Inl e)"
  proof
    assume "Inl e \<in> set (shoot_outcomes (trace (snd (main u c (start w)))))"
    with flight(3) have "?S = Inl e" by simp
    with flight(6) show "fst (main u c (start w)) = Inl e
      \<and> shown_tables (trace (snd (main u c (start w)))) = []
      \<and> post_process_outcomes (trace (snd (main u c (start w)))) = []
      \<and> shoot_outcome (last (trace (snd (main u c (start w))))) = Some (Inl e)" by blast
  qed
  have pp: "Inl e \<in> set (post_process_outcomes (trace (snd (main u c (start w))))) \<longrightarrow>
      fst (main u c (start w)) = Inl e
      \<and> post_process_outcomes (trace (snd (main u c (start w)))) = [Inl e]
      \<and> post_process_outcome (last (trace (snd (main u c (start w))))) = Some (Inl e)"
    using flight(7) by blast
  from assms one s pp show ?thesis by blast
qed

theorem physics_failure_propagates_witness:
  "Inl (Raised ''unstable'') \<in> set (shoot_outcomes (trace (snd (main first_run failing_shoot (start 0)))))
   \<and> fst (main first_run failing_shoot (start 0)) = Inl (Raised ''unstable'')
   \<and> shown_tables (trace (snd (main first_run failing_shoot (start 0)))) = []
   \<and> Inl (Raised ''no angles'')
       \<in> set (post_process_outcomes (trace (snd (main first_run failing_post_process (start 0)))))
   \<and> fst (main first_run failing_post_process (start 0)) = Inl (Raised ''no angles'')
   \<and> post_process_outcomes (trace (snd (main first_run failing_post_process (start 0))))
       = [Inl (Raised ''no angles'')]"
proof -
  have h1: "Inl (Raised ''unstable'')
      \<in> set (shoot_outcomes (trace (snd (main first_run failing_shoot (start 0)))))"
    by (simp add: failing_shoot_run obs_defs)
  have h2: "Inl (Raised ''no angles'')
      \<in> set (post_process_outcomes (trace (snd (main first_run failing_post_process (start 0)))))"
    by (simp add: failing_post_process_run obs_defs)
  from physics_failure_propagates [of "Raised ''unstable''" first_run failing_shoot 0]
    physics_failure_propagates [of "Raised ''no angles''" first_run failing_post_process 0]
    h1 h2
  show ?thesis by blast
qed

subsection \<open>Determinism\<close>




end
